theory Spec2Isabelle
  imports Complex_Main
begin

section \<open>Appointment booking backend: data model\<close>

text \<open>
  The development embeds the appointment controller
  (\<^verbatim>\<open>src/modules/appointment/appointment.controller.js\<close>) and the tenant guard
  (\<^verbatim>\<open>src/lib/prismaWithTenant.js\<close>).

  A valid JavaScript \<^verbatim>\<open>Date\<close> is its time value, an integer number of milliseconds
  since the epoch; \<^verbatim>\<open>Invalid Date\<close> (time value NaN) is a separate constructor.
  Tables are lists of rows; \<^verbatim>\<open>findFirst\<close> is \<^const>\<open>find\<close>, \<^verbatim>\<open>findMany\<close> is
  \<^const>\<open>filter\<close>. A thrown \<^verbatim>\<open>ApiError\<close> is the left injection of a sum.
\<close>

type_synonym timestamp = int

datatype jsdate = InvalidDate | Date timestamp

text \<open>\<^verbatim>\<open>new Date(v)\<close> for a number \<^verbatim>\<open>v\<close>: TimeClip makes the date invalid beyond 8.64e15 ms.\<close>

definition newDate :: "int \<Rightarrow> jsdate" where
  "newDate v = (if \<bar>v\<bar> \<le> 8640000000000000 then Date v else InvalidDate)"

text \<open>The UTC field accessors of ECMAScript (floor division, non-negative modulo).\<close>

definition getUTCDay :: "timestamp \<Rightarrow> int" where
  "getUTCDay t = (t div 86400000 + 4) mod 7"

definition getUTCHours :: "timestamp \<Rightarrow> int" where
  "getUTCHours t = (t div 3600000) mod 24"

definition getUTCMinutes :: "timestamp \<Rightarrow> int" where
  "getUTCMinutes t = (t div 60000) mod 60"

datatype AppointmentStatus = PENDING | CONFIRMED | CANCELLED | COMPLETED | NO_SHOW | RESCHEDULED

datatype AvailabilityType = RECURRING | ONE_OFF

record Service =
  svc_id :: string
  svc_tenantId :: string
  svc_title :: string
  svc_duration :: int
  svc_price :: real
  svc_currency :: string
  svc_active :: bool
  svc_deletedAt :: "timestamp option"

record Staff =
  stf_id :: string
  stf_tenantId :: string
  stf_deletedAt :: "timestamp option"

record User =
  usr_id :: string
  usr_deletedAt :: "timestamp option"

record TenantUser =
  tu_tenantId :: string
  tu_userId :: string

record StaffService =
  ss_staffId :: string
  ss_serviceId :: string

record Availability =
  av_staffId :: string
  av_tenantId :: string
  av_type :: AvailabilityType
  av_dayOfWeek :: "int option"
  av_startTime :: "string option"
  av_endTime :: "string option"
  av_startDate :: "timestamp option"
  av_endDate :: "timestamp option"
  av_deletedAt :: "timestamp option"

record TimeOff =
  to_staffId :: string
  to_tenantId :: string
  to_start :: timestamp
  to_end :: timestamp
  to_reason :: "string option"

record Appointment =
  ap_id :: string
  ap_tenantId :: string
  ap_serviceId :: string
  ap_staffId :: string
  ap_clientId :: string
  ap_start :: timestamp
  ap_end :: timestamp
  ap_status :: AppointmentStatus
  ap_price :: real
  ap_currency :: string
  ap_notes :: "string option"
  ap_updatedAt :: timestamp
  ap_canceledAt :: "timestamp option"

record Notification =
  nt_tenantId :: string
  nt_userId :: string
  nt_type :: string
  nt_channel :: string
  nt_appointmentId :: string
  nt_start :: timestamp
  nt_serviceId :: string
  nt_serviceTitle :: string
  nt_status :: string

record Database =
  services :: "Service list"
  staffs :: "Staff list"
  users :: "User list"
  tenantUsers :: "TenantUser list"
  staffServices :: "StaffService list"
  availabilities :: "Availability list"
  timeOffs :: "TimeOff list"
  appointments :: "Appointment list"
  notifications :: "Notification list"

text \<open>
  The errors the controller throws, one constructor per \<^verbatim>\<open>throw new ApiError(...)\<close>;
  a constructor's argument is the value interpolated into the message.
\<close>

datatype ApiError =
    Forbidden
  | MissingRequiredFields
  | InvalidStartOrEnd
  | EndMustBeAfterStart
  | CannotCreateInPast
  | ServiceNotFound
  | StaffNotFound
  | ClientNotFound
  | StaffDoesNotProvideService
  | EndMustBeExactly int
  | StaffOnTimeOff string
  | OutsideStaffAvailability
  | StaffAlreadyBooked
  | ClientAlreadyBooked
  | AppointmentNotFound
  | BothStartAndEndRequired
  | CannotRescheduleToPast
  | AssociatedServiceNotFound
  | RescheduledEndMustBeExactly int
  | StaffAlreadyBookedAtNewTime
  | ClientAlreadyBookedAtNewTime
  | NotFoundOrAlreadyCancelled
  | RecordToUpdateNotFound

fun statusCode :: "ApiError \<Rightarrow> nat" where
  "statusCode Forbidden = 403"
| "statusCode MissingRequiredFields = 400"
| "statusCode InvalidStartOrEnd = 400"
| "statusCode EndMustBeAfterStart = 400"
| "statusCode CannotCreateInPast = 400"
| "statusCode ServiceNotFound = 404"
| "statusCode StaffNotFound = 404"
| "statusCode ClientNotFound = 404"
| "statusCode StaffDoesNotProvideService = 400"
| "statusCode (EndMustBeExactly d) = 400"
| "statusCode (StaffOnTimeOff r) = 409"
| "statusCode OutsideStaffAvailability = 409"
| "statusCode StaffAlreadyBooked = 409"
| "statusCode ClientAlreadyBooked = 409"
| "statusCode AppointmentNotFound = 404"
| "statusCode BothStartAndEndRequired = 400"
| "statusCode CannotRescheduleToPast = 400"
| "statusCode AssociatedServiceNotFound = 500"
| "statusCode (RescheduledEndMustBeExactly d) = 400"
| "statusCode StaffAlreadyBookedAtNewTime = 409"
| "statusCode ClientAlreadyBookedAtNewTime = 409"
| "statusCode NotFoundOrAlreadyCancelled = 404"
| "statusCode RecordToUpdateNotFound = 500"

section \<open>Availability helpers\<close>

text \<open>
  \<^verbatim>\<open>hhmm.split(":")\<close>: every colon separates, and the result has at least one part.
\<close>

fun split_colon :: "string \<Rightarrow> string list" where
  "split_colon [] = [[]]"
| "split_colon (c # cs) =
     (if c = CHR '':'' then [] # split_colon cs
      else (case split_colon cs of
              [] \<Rightarrow> [[c]]
            | p # ps \<Rightarrow> (c # p) # ps))"

text \<open>
  A JavaScript number as far as this code needs it: NaN or an integer. \<^verbatim>\<open>Number(s)\<close> is
  modelled on the strings that are an optionally signed run of decimal digits between
  optional ASCII white space (the empty string is 0, as in JavaScript). The other numeric
  literals of JavaScript (fractions, exponents, radix prefixes, \<^verbatim>\<open>Infinity\<close>) are outside
  the model and read as NaN; no statement below is about such a string.
\<close>

datatype jsnum = NaN | Num int

definition is_ws :: "char \<Rightarrow> bool" where
  "is_ws c \<longleftrightarrow> c \<in> set [CHR 0x09, CHR 0x0A, CHR 0x0B, CHR 0x0C, CHR 0x0D, CHR 0x20]"

definition trim :: "string \<Rightarrow> string" where
  "trim s = rev (dropWhile is_ws (rev (dropWhile is_ws s)))"

definition is_digit :: "char \<Rightarrow> bool" where
  "is_digit c \<longleftrightarrow> 48 \<le> (of_char c :: nat) \<and> (of_char c :: nat) \<le> 57"

definition digit_val :: "char \<Rightarrow> int" where
  "digit_val c = int (of_char c :: nat) - 48"

definition digits_val :: "string \<Rightarrow> int" where
  "digits_val ds = foldl (\<lambda>acc c. 10 * acc + digit_val c) 0 ds"

definition unsigned_Number :: "string \<Rightarrow> jsnum" where
  "unsigned_Number ds = (if ds \<noteq> [] \<and> list_all is_digit ds then Num (digits_val ds) else NaN)"

definition Number_js :: "string \<Rightarrow> jsnum" where
  "Number_js s =
     (case trim s of
        [] \<Rightarrow> Num 0
      | c # cs \<Rightarrow>
          if c = CHR ''-'' then (case unsigned_Number cs of NaN \<Rightarrow> NaN | Num n \<Rightarrow> Num (- n))
          else if c = CHR ''+'' then unsigned_Number cs
          else unsigned_Number (c # cs))"

text \<open>
  \<^verbatim>\<open>hhmmToMinutes\<close>. The result is \<^verbatim>\<open>null\<close> (\<^const>\<open>None\<close>) for a missing or empty
  string and when \<^verbatim>\<open>Number.isNaN\<close> holds of the hour or of the minute. With no colon the
  minute is \<^verbatim>\<open>undefined\<close>, of which \<^verbatim>\<open>Number.isNaN\<close> is false, and
  \<^verbatim>\<open>h * 60 + undefined\<close> is NaN: the result is then NaN, not \<^verbatim>\<open>null\<close>.
\<close>

definition hhmmToMinutes :: "string option \<Rightarrow> jsnum option" where
  "hhmmToMinutes hhmm =
     (case hhmm of
        None \<Rightarrow> None
      | Some s \<Rightarrow>
          if s = [] then None
          else (case map Number_js (split_colon s) of
                  [] \<Rightarrow> Some NaN
                | [h] \<Rightarrow> (if h = NaN then None else Some NaN)
                | h # m # _ \<Rightarrow>
                    (case (h, m) of
                       (Num hv, Num mv) \<Rightarrow> Some (Num (hv * 60 + mv))
                     | _ \<Rightarrow> None)))"

text \<open>Comparison of numbers: every comparison with NaN is false.\<close>

fun js_ge :: "int \<Rightarrow> jsnum \<Rightarrow> bool" where
  "js_ge a (Num b) = (a \<ge> b)"
| "js_ge a NaN = False"

fun js_le :: "int \<Rightarrow> jsnum \<Rightarrow> bool" where
  "js_le a (Num b) = (a \<le> b)"
| "js_le a NaN = False"

text \<open>
  \<^verbatim>\<open>isWithinRecurringAvailability\<close>. The first line tests the three fields for
  falsiness: \<^verbatim>\<open>null\<close>, the number 0 and the empty string are all falsy.
\<close>

definition falsy_num :: "int option \<Rightarrow> bool" where
  "falsy_num x \<longleftrightarrow> x = None \<or> x = Some 0"

definition falsy_str :: "string option \<Rightarrow> bool" where
  "falsy_str x \<longleftrightarrow> x = None \<or> x = Some []"

definition isWithinRecurringAvailability :: "Availability \<Rightarrow> timestamp \<Rightarrow> timestamp \<Rightarrow> bool" where
  "isWithinRecurringAvailability av startDate endDate =
     (if falsy_num (av_dayOfWeek av) \<or> falsy_str (av_startTime av) \<or> falsy_str (av_endTime av)
      then False
      else let startDow = getUTCDay startDate;
               avDow = the (av_dayOfWeek av)
           in if startDow \<noteq> avDow then False
              else let apptStartMinutes = getUTCHours startDate * 60 + getUTCMinutes startDate;
                       apptEndMinutes = getUTCHours endDate * 60 + getUTCMinutes endDate
                   in (case (hhmmToMinutes (av_startTime av), hhmmToMinutes (av_endTime av)) of
                         (Some avStart, Some avEnd) \<Rightarrow>
                           js_ge apptStartMinutes avStart \<and> js_le apptEndMinutes avEnd
                       | _ \<Rightarrow> False))"

text \<open>
  \<^verbatim>\<open>isWithinOneOffAvailability\<close>. A \<^verbatim>\<open>Date\<close> object is truthy, so the first test
  fails for \<^verbatim>\<open>null\<close> only.
\<close>

definition isWithinOneOffAvailability :: "Availability \<Rightarrow> timestamp \<Rightarrow> timestamp \<Rightarrow> bool" where
  "isWithinOneOffAvailability av startDate endDate =
     (case (av_startDate av, av_endDate av) of
        (Some avStart, Some avEnd) \<Rightarrow> startDate \<ge> avStart \<and> endDate \<le> avEnd
      | _ \<Rightarrow> False)"

text \<open>
  \<^verbatim>\<open>validateStaffAvailabilityAndTimeOff\<close>: the two \<^verbatim>\<open>findMany\<close> queries, then the
  time-off test, then the availability test.
\<close>

definition validateStaffAvailabilityAndTimeOff ::
  "Database \<Rightarrow> string \<Rightarrow> string \<Rightarrow> timestamp \<Rightarrow> timestamp \<Rightarrow> ApiError + unit" where
  "validateStaffAvailabilityAndTimeOff db tenantId staffId startDate endDate =
     (let avs = filter (\<lambda>av. av_staffId av = staffId \<and> av_tenantId av = tenantId
                              \<and> av_deletedAt av = None) (availabilities db);
          tfs = filter (\<lambda>t. to_staffId t = staffId \<and> to_tenantId t = tenantId
                              \<and> to_start t \<le> endDate \<and> to_end t \<ge> startDate) (timeOffs db)
      in (case tfs of
            tf # _ \<Rightarrow>
              Inl (StaffOnTimeOff (if falsy_str (to_reason tf) then ''Time off''
                                   else the (to_reason tf)))
          | [] \<Rightarrow>
              if avs = [] then Inr ()
              else if list_ex (\<lambda>av. case av_type av of
                                       ONE_OFF \<Rightarrow> isWithinOneOffAvailability av startDate endDate
                                     | RECURRING \<Rightarrow> isWithinRecurringAvailability av startDate endDate)
                              avs
                   then Inr ()
                   else Inl OutsideStaffAvailability))"

section \<open>Conflict queries\<close>

text \<open>
  The four \<^verbatim>\<open>prisma.appointment.findFirst\<close> conflict queries of the controller. The two
  of \<^verbatim>\<open>createAppointment\<close> have no \<^verbatim>\<open>id: { not: id }\<close> condition (\<open>notId = None\<close>);
  the two of \<^verbatim>\<open>updateAppointment\<close> exclude the appointment being moved.
\<close>

definition staffConflict ::
  "Database \<Rightarrow> string \<Rightarrow> string \<Rightarrow> string option \<Rightarrow> timestamp \<Rightarrow> timestamp \<Rightarrow> Appointment option" where
  "staffConflict db tenantId staffId notId startDate endDate =
     find (\<lambda>a. ap_tenantId a = tenantId \<and> ap_staffId a = staffId
               \<and> (case notId of None \<Rightarrow> True | Some i \<Rightarrow> ap_id a \<noteq> i)
               \<and> ap_status a \<in> set [PENDING, CONFIRMED]
               \<and> ap_start a < endDate \<and> ap_end a > startDate)
          (appointments db)"

definition clientConflict ::
  "Database \<Rightarrow> string \<Rightarrow> string \<Rightarrow> string option \<Rightarrow> timestamp \<Rightarrow> timestamp \<Rightarrow> Appointment option" where
  "clientConflict db tenantId clientId notId startDate endDate =
     find (\<lambda>a. ap_tenantId a = tenantId \<and> ap_clientId a = clientId
               \<and> (case notId of None \<Rightarrow> True | Some i \<Rightarrow> ap_id a \<noteq> i)
               \<and> ap_status a \<in> set [PENDING, CONFIRMED]
               \<and> ap_start a < endDate \<and> ap_end a > startDate)
          (appointments db)"

section \<open>createAppointment\<close>

text \<open>
  The request body. A field is \<^const>\<open>None\<close> when it is missing or \<^verbatim>\<open>null\<close>; for
  \<open>start\<close> and \<open>end\<close>, \<^const>\<open>None\<close> stands for every falsy value and \<open>Some d\<close> carries the
  \<^verbatim>\<open>Date\<close> that \<^verbatim>\<open>new Date(...)\<close> makes of a truthy one.

  The handler takes the clock reading \<open>now\<close> of \<^verbatim>\<open>new Date()\<close> and the identifier
  \<open>newId\<close> that the store gives the inserted row, and returns its outcome together
  with the database it leaves behind.
\<close>

record CreateBody =
  cb_serviceId :: "string option"
  cb_staffId :: "string option"
  cb_clientId :: "string option"
  cb_start :: "jsdate option"
  cb_end :: "jsdate option"
  cb_notes :: "string option"

text \<open>
  The rows of the two \<^verbatim>\<open>create\<close> calls in the transaction. The store supplies the
  identifier and the \<^verbatim>\<open>updatedAt\<close> stamp of the new appointment.
\<close>

definition newAppointment ::
  "timestamp \<Rightarrow> string \<Rightarrow> string \<Rightarrow> string \<Rightarrow> string \<Rightarrow> string \<Rightarrow> timestamp \<Rightarrow> timestamp
     \<Rightarrow> Service \<Rightarrow> string option \<Rightarrow> Appointment" where
  "newAppointment now newId tenantId serviceId staffId clientId startDate endDate service notes =
     \<lparr> ap_id = newId, ap_tenantId = tenantId, ap_serviceId = serviceId,
       ap_staffId = staffId, ap_clientId = clientId,
       ap_start = startDate, ap_end = endDate, ap_status = PENDING,
       ap_price = svc_price service, ap_currency = svc_currency service,
       ap_notes = (if falsy_str notes then None else notes),
       ap_updatedAt = now, ap_canceledAt = None \<rparr>"

definition newNotification :: "string \<Rightarrow> string \<Rightarrow> Appointment \<Rightarrow> Service \<Rightarrow> Notification" where
  "newNotification tenantId clientId appt service =
     \<lparr> nt_tenantId = tenantId, nt_userId = clientId,
       nt_type = ''booking_created'', nt_channel = ''email'',
       nt_appointmentId = ap_id appt, nt_start = ap_start appt,
       nt_serviceId = svc_id service, nt_serviceTitle = svc_title service,
       nt_status = ''queued'' \<rparr>"

definition createAppointment ::
  "timestamp \<Rightarrow> string \<Rightarrow> Database \<Rightarrow> string \<Rightarrow> CreateBody \<Rightarrow> (ApiError + Appointment) \<times> Database" where
  "createAppointment now newId db tenantId body =
     (if falsy_str (cb_serviceId body) \<or> falsy_str (cb_staffId body) \<or> falsy_str (cb_clientId body)
         \<or> cb_start body = None \<or> cb_end body = None
      then (Inl MissingRequiredFields, db)
      else
        let serviceId = the (cb_serviceId body);
            staffId = the (cb_staffId body);
            clientId = the (cb_clientId body)
        in
        (case (the (cb_start body), the (cb_end body)) of
           (Date startDate, Date endDate) \<Rightarrow>
             if endDate \<le> startDate then (Inl EndMustBeAfterStart, db)
             else if startDate < now then (Inl CannotCreateInPast, db)
             else
               (case find (\<lambda>s. svc_id s = serviceId \<and> svc_tenantId s = tenantId
                               \<and> svc_active s \<and> svc_deletedAt s = None) (services db) of
                  None \<Rightarrow> (Inl ServiceNotFound, db)
                | Some service \<Rightarrow>
               (case find (\<lambda>s. stf_id s = staffId \<and> stf_tenantId s = tenantId
                               \<and> stf_deletedAt s = None) (staffs db) of
                  None \<Rightarrow> (Inl StaffNotFound, db)
                | Some staff \<Rightarrow>
               (case find (\<lambda>u. usr_id u = clientId \<and> usr_deletedAt u = None) (users db) of
                  None \<Rightarrow> (Inl ClientNotFound, db)
                | Some client \<Rightarrow>
               (case find (\<lambda>x. ss_staffId x = staffId \<and> ss_serviceId x = serviceId)
                          (staffServices db) of
                  None \<Rightarrow> (Inl StaffDoesNotProvideService, db)
                | Some assigned \<Rightarrow>
                    if newDate (startDate + svc_duration service * 60000) \<noteq> Date endDate
                    then (Inl (EndMustBeExactly (svc_duration service)), db)
                    else
               (case validateStaffAvailabilityAndTimeOff db tenantId staffId startDate endDate of
                  Inl e \<Rightarrow> (Inl e, db)
                | Inr _ \<Rightarrow>
               (case staffConflict db tenantId staffId None startDate endDate of
                  Some _ \<Rightarrow> (Inl StaffAlreadyBooked, db)
                | None \<Rightarrow>
               (case clientConflict db tenantId clientId None startDate endDate of
                  Some _ \<Rightarrow> (Inl ClientAlreadyBooked, db)
                | None \<Rightarrow>
                    let appt = newAppointment now newId tenantId serviceId staffId clientId
                                 startDate endDate service (cb_notes body);
                        note = newNotification tenantId clientId appt service
                    in (Inr appt, db\<lparr> appointments := appointments db @ [appt],
                                       notifications := notifications db @ [note] \<rparr>))))))))
         | _ \<Rightarrow> (Inl InvalidStartOrEnd, db)))"

section \<open>updateAppointment\<close>

record ReqUser =
  ru_role :: "string option"
  ru_tenantRole :: "string option"

definition includes_js :: "string list \<Rightarrow> string option \<Rightarrow> bool" where
  "includes_js allowed x = (case x of None \<Rightarrow> False | Some r \<Rightarrow> r \<in> set allowed)"

definition requireTenantRole :: "ReqUser option \<Rightarrow> string list \<Rightarrow> ApiError + unit" where
  "requireTenantRole user roles =
     (if \<not> includes_js roles (case user of None \<Rightarrow> None | Some u \<Rightarrow> ru_role u)
         \<and> \<not> includes_js roles (case user of None \<Rightarrow> None | Some u \<Rightarrow> ru_tenantRole u)
      then Inl Forbidden else Inr ())"

text \<open>
  The body of an update. \<open>ub_status\<close> ranges over the values of the store's
  \<^verbatim>\<open>AppointmentStatus\<close> enumeration; \<^const>\<open>None\<close> is \<^verbatim>\<open>null\<close> or \<^verbatim>\<open>undefined\<close>, which
  \<^verbatim>\<open>?? undefined\<close> turns into "leave the column as it is".
\<close>

record UpdateBody =
  ub_status :: "AppointmentStatus option"
  ub_start :: "jsdate option"
  ub_end :: "jsdate option"
  ub_notes :: "string option"

text \<open>
  The block guarded by \<^verbatim>\<open>if (start || end)\<close>: it throws, or it ends with the new
  interval in \<^verbatim>\<open>newStart\<close>, \<^verbatim>\<open>newEnd\<close>.
\<close>

definition rescheduleChecks ::
  "timestamp \<Rightarrow> Database \<Rightarrow> string \<Rightarrow> string \<Rightarrow> Appointment \<Rightarrow> UpdateBody
     \<Rightarrow> ApiError + (timestamp \<times> timestamp)" where
  "rescheduleChecks now db tenantId apptId appointment body =
     (if ub_start body = None \<or> ub_end body = None then Inl BothStartAndEndRequired
      else
        (case (the (ub_start body), the (ub_end body)) of
           (Date newStart, Date newEnd) \<Rightarrow>
             if newEnd \<le> newStart then Inl EndMustBeAfterStart
             else if newStart < now then Inl CannotRescheduleToPast
             else
               (case find (\<lambda>s. svc_id s = ap_serviceId appointment) (services db) of
                  None \<Rightarrow> Inl AssociatedServiceNotFound
                | Some service \<Rightarrow>
                    if newDate (newStart + svc_duration service * 60000) \<noteq> Date newEnd
                    then Inl (RescheduledEndMustBeExactly (svc_duration service))
                    else
               (case validateStaffAvailabilityAndTimeOff db tenantId (ap_staffId appointment)
                       newStart newEnd of
                  Inl e \<Rightarrow> Inl e
                | Inr _ \<Rightarrow>
               (case staffConflict db tenantId (ap_staffId appointment) (Some apptId) newStart newEnd of
                  Some _ \<Rightarrow> Inl StaffAlreadyBookedAtNewTime
                | None \<Rightarrow>
               (case clientConflict db tenantId (ap_clientId appointment) (Some apptId) newStart newEnd of
                  Some _ \<Rightarrow> Inl ClientAlreadyBookedAtNewTime
                | None \<Rightarrow> Inr (newStart, newEnd)))))
         | _ \<Rightarrow> Inl InvalidStartOrEnd))"

text \<open>
  The \<^verbatim>\<open>data\<close> of the final \<^verbatim>\<open>prisma.appointment.update\<close>: an \<^verbatim>\<open>undefined\<close> entry
  leaves its column alone. Both interval columns are written exactly when \<^verbatim>\<open>start\<close>
  is truthy.
\<close>

definition updateData ::
  "timestamp \<Rightarrow> UpdateBody \<Rightarrow> timestamp \<Rightarrow> timestamp \<Rightarrow> Appointment \<Rightarrow> Appointment" where
  "updateData now body newStart newEnd a =
     a\<lparr> ap_status := (case ub_status body of None \<Rightarrow> ap_status a | Some s \<Rightarrow> s),
        ap_start := (if ub_start body \<noteq> None then newStart else ap_start a),
        ap_end := (if ub_start body \<noteq> None then newEnd else ap_end a),
        ap_notes := (case ub_notes body of None \<Rightarrow> ap_notes a | Some n \<Rightarrow> Some n),
        ap_updatedAt := now \<rparr>"

text \<open>
  \<^verbatim>\<open>prisma.appointment.update({ where: { id }, ... })\<close> addresses the row by its
  primary key alone and fails when there is none (\<open>RecordToUpdateNotFound\<close>, which
  cannot happen after the lookup above has found the row).
\<close>

definition updateAppointment ::
  "timestamp \<Rightarrow> Database \<Rightarrow> string \<Rightarrow> ReqUser option \<Rightarrow> string \<Rightarrow> UpdateBody
     \<Rightarrow> (ApiError + Appointment) \<times> Database" where
  "updateAppointment now db tenantId user apptId body =
     (case requireTenantRole user [''OWNER'', ''ADMIN'', ''STAFF''] of
        Inl e \<Rightarrow> (Inl e, db)
      | Inr _ \<Rightarrow>
     (case find (\<lambda>a. ap_id a = apptId \<and> ap_tenantId a = tenantId) (appointments db) of
        None \<Rightarrow> (Inl AppointmentNotFound, db)
      | Some appointment \<Rightarrow>
     (case (if ub_start body \<noteq> None \<or> ub_end body \<noteq> None
            then rescheduleChecks now db tenantId apptId appointment body
            else Inr (ap_start appointment, ap_end appointment)) of
        Inl e \<Rightarrow> (Inl e, db)
      | Inr (newStart, newEnd) \<Rightarrow>
     (case find (\<lambda>a. ap_id a = apptId) (appointments db) of
        None \<Rightarrow> (Inl RecordToUpdateNotFound, db)
      | Some row \<Rightarrow>
          (Inr (updateData now body newStart newEnd row),
           db\<lparr> appointments :=
                 map (\<lambda>a. if ap_id a = apptId then updateData now body newStart newEnd a else a)
                     (appointments db) \<rparr>)))))"

section \<open>cancelAppointment\<close>

text \<open>
  \<^verbatim>\<open>updateMany\<close> rewrites every row that matches the filter and reports how many
  there were.
\<close>

definition cancelAppointment ::
  "timestamp \<Rightarrow> Database \<Rightarrow> string \<Rightarrow> string \<Rightarrow> (ApiError + string) \<times> Database" where
  "cancelAppointment now db tenantId apptId =
     (let matches = (\<lambda>a. ap_id a = apptId \<and> ap_tenantId a = tenantId \<and> ap_status a \<noteq> CANCELLED);
          count = length (filter matches (appointments db));
          db' = db\<lparr> appointments :=
                      map (\<lambda>a. if matches a
                               then a\<lparr> ap_status := CANCELLED, ap_canceledAt := Some now \<rparr>
                               else a)
                          (appointments db) \<rparr>
      in if count = 0 then (Inl NotFoundOrAlreadyCancelled, db') else (Inr apptId, db'))"

section \<open>Tenant guard\<close>

text \<open>
  The middleware that \<^verbatim>\<open>prismaWithTenant(tenantId)\<close> registers with \<^verbatim>\<open>prisma.$use\<close>.
  \<^verbatim>\<open>params\<close> has a model name (absent for raw queries), an action and the call's
  arguments; of the arguments the guard touches \<^verbatim>\<open>where\<close> and \<^verbatim>\<open>data\<close>, objects
  modelled as maps from field names to values, and every other argument travels in the
  record's extension. Reading a property of \<^verbatim>\<open>undefined\<close> throws a \<^verbatim>\<open>TypeError\<close>;
  spreading \<^verbatim>\<open>undefined\<close> gives the empty object. The value of \<open>tenantGuard\<close> is
  what the guard hands to \<^verbatim>\<open>next\<close>.
\<close>

datatype jsval = JStr string | JNum int | JBool bool | JNull
  | JArr "jsval list" | JObj "(string \<times> jsval) list"

record 'r Args =
  ar_where :: "(string \<rightharpoonup> jsval) option"
  ar_data :: "(string \<rightharpoonup> jsval) option"
  ar_rest :: 'r

record 'r Params =
  pm_model :: "string option"
  pm_action :: string
  pm_args :: "'r Args option"

datatype GuardError = TypeError

definition tenantModels :: "string list" where
  "tenantModels = [''Appointment'', ''Service'', ''Staff'', ''Availability'', ''TimeOff'',
                   ''StaffService'', ''Payment'', ''Notification'', ''Subscription'', ''Location'']"

definition spread :: "(string \<rightharpoonup> jsval) option \<Rightarrow> (string \<rightharpoonup> jsval)" where
  "spread w = (case w of None \<Rightarrow> Map.empty | Some m \<Rightarrow> m)"

text \<open>\<^verbatim>\<open>params.args.where = { ...params.args.where, tenantId }\<close>\<close>

definition injectWhere :: "string \<Rightarrow> 'r Params \<Rightarrow> GuardError + 'r Params" where
  "injectWhere tenantId params =
     (case pm_args params of
        None \<Rightarrow> Inl TypeError
      | Some a \<Rightarrow>
          Inr (params\<lparr> pm_args :=
                 Some (a\<lparr> ar_where := Some ((spread (ar_where a))(''tenantId'' \<mapsto> JStr tenantId)) \<rparr>) \<rparr>))"

text \<open>\<^verbatim>\<open>params.args.data.tenantId = tenantId\<close>\<close>

definition injectData :: "string \<Rightarrow> 'r Params \<Rightarrow> GuardError + 'r Params" where
  "injectData tenantId params =
     (case pm_args params of
        None \<Rightarrow> Inl TypeError
      | Some a \<Rightarrow>
          (case ar_data a of
             None \<Rightarrow> Inl TypeError
           | Some d \<Rightarrow>
               Inr (params\<lparr> pm_args :=
                      Some (a\<lparr> ar_data := Some (d(''tenantId'' \<mapsto> JStr tenantId)) \<rparr>) \<rparr>)))"

text \<open>The three \<^verbatim>\<open>if\<close> statements run one after the other on the same \<^verbatim>\<open>params\<close>.\<close>

definition tenantGuard :: "string \<Rightarrow> 'r Params \<Rightarrow> GuardError + 'r Params" where
  "tenantGuard tenantId params =
     (if (case pm_model params of None \<Rightarrow> False | Some m \<Rightarrow> m \<in> set tenantModels)
      then
        (case (if pm_action params \<in> set [''findMany'', ''findFirst'', ''findUnique'']
               then injectWhere tenantId params else Inr params) of
           Inl e \<Rightarrow> Inl e
         | Inr p1 \<Rightarrow>
        (case (if pm_action p1 = ''create'' then injectData tenantId p1 else Inr p1) of
           Inl e \<Rightarrow> Inl e
         | Inr p2 \<Rightarrow>
            (if pm_action p2 \<in> set [''update'', ''delete'', ''updateMany'', ''deleteMany'']
             then injectWhere tenantId p2 else Inr p2)))
      else Inr params)"

text \<open>
  \<^verbatim>\<open>prismaWithTenant\<close> adds the guard to the client's middleware chain, which a call
  then traverses in the order of registration.
\<close>

definition prismaWithTenant :: "string \<Rightarrow> string list \<Rightarrow> string list" where
  "prismaWithTenant tenantId chain = chain @ [tenantId]"

fun runChain :: "string list \<Rightarrow> 'r Params \<Rightarrow> GuardError + 'r Params" where
  "runChain [] params = Inr params"
| "runChain (t # ts) params =
     (case tenantGuard t params of Inl e \<Rightarrow> Inl e | Inr p \<Rightarrow> runChain ts p)"

section \<open>The availability rules in the words of the specification\<close>

text \<open>
  These definitions follow the text of the specification, not the code, and serve to
  compare the two. A recurring record matches when the day of the week of the candidate's
  start (UTC, 0 = Sunday .. 6 = Saturday) is the record's \<open>dayOfWeek\<close> and the minutes
  since midnight (UTC) of both endpoints lie in \<open>[startTime, endTime]\<close>, the two times
  being wall-clock strings \<open>HH:MM\<close>; a string that is not of this form makes the record
  non-matching. A one-off record matches when \<open>[startDate, endDate]\<close> contains the
  candidate. The interval is permitted when the staff member has no record or some
  record matches.
\<close>

definition minutesSinceMidnight :: "timestamp \<Rightarrow> int" where
  "minutesSinceMidnight t = getUTCHours t * 60 + getUTCMinutes t"

definition spec_parse_hhmm :: "string \<Rightarrow> int option" where
  "spec_parse_hhmm s =
     (case s of
        [h1, h2, c, m1, m2] \<Rightarrow>
          if is_digit h1 \<and> is_digit h2 \<and> c = CHR '':'' \<and> is_digit m1 \<and> is_digit m2
             \<and> digit_val h1 * 10 + digit_val h2 < 24 \<and> digit_val m1 * 10 + digit_val m2 < 60
          then Some ((digit_val h1 * 10 + digit_val h2) * 60 + (digit_val m1 * 10 + digit_val m2))
          else None
      | _ \<Rightarrow> None)"

definition spec_recurring_match :: "Availability \<Rightarrow> timestamp \<Rightarrow> timestamp \<Rightarrow> bool" where
  "spec_recurring_match av s e =
     (case (av_dayOfWeek av, av_startTime av, av_endTime av) of
        (Some d, Some st, Some et) \<Rightarrow>
          (case (spec_parse_hhmm st, spec_parse_hhmm et) of
             (Some a, Some b) \<Rightarrow>
               getUTCDay s = d
               \<and> a \<le> minutesSinceMidnight s \<and> minutesSinceMidnight s \<le> b
               \<and> a \<le> minutesSinceMidnight e \<and> minutesSinceMidnight e \<le> b
           | _ \<Rightarrow> False)
      | _ \<Rightarrow> False)"

definition spec_contains :: "Availability \<Rightarrow> timestamp \<Rightarrow> timestamp \<Rightarrow> bool" where
  "spec_contains av s e =
     (case av_type av of
        RECURRING \<Rightarrow> spec_recurring_match av s e
      | ONE_OFF \<Rightarrow>
          (case (av_startDate av, av_endDate av) of
             (Some a, Some b) \<Rightarrow> a \<le> s \<and> e \<le> b
           | _ \<Rightarrow> False))"

definition spec_availability_permits :: "Availability list \<Rightarrow> timestamp \<Rightarrow> timestamp \<Rightarrow> bool" where
  "spec_availability_permits avs s e \<longleftrightarrow> avs = [] \<or> list_ex (\<lambda>av. spec_contains av s e) avs"

section \<open>Example data\<close>

text \<open>
  A small tenant used to run the model on concrete requests: one 30-minute service, one
  staff member available on Mondays from 09:00 to 12:00 UTC, one client. The times are
  Monday 2026-11-09, 09:00 and 09:30 UTC; the clock reads 2026-11-03, 00:00 UTC.
\<close>

definition now0 :: timestamp where
  "now0 = 1793664000000"

definition service30 :: Service where
  "service30 = \<lparr> svc_id = ''svc1'', svc_tenantId = ''tenantA'', svc_title = ''Haircut'',
                  svc_duration = 30, svc_price = 50, svc_currency = ''USD'',
                  svc_active = True, svc_deletedAt = None \<rparr>"

definition staffS :: Staff where
  "staffS = \<lparr> stf_id = ''S'', stf_tenantId = ''tenantA'', stf_deletedAt = None \<rparr>"

definition clientC :: User where
  "clientC = \<lparr> usr_id = ''C'', usr_deletedAt = None \<rparr>"

definition mondayWindow :: Availability where
  "mondayWindow = \<lparr> av_staffId = ''S'', av_tenantId = ''tenantA'', av_type = RECURRING,
                     av_dayOfWeek = Some 1, av_startTime = Some ''09:00'', av_endTime = Some ''12:00'',
                     av_startDate = None, av_endDate = None, av_deletedAt = None \<rparr>"

definition db0 :: Database where
  "db0 = \<lparr> services = [service30], staffs = [staffS], users = [clientC], tenantUsers = [],
            staffServices = [\<lparr> ss_staffId = ''S'', ss_serviceId = ''svc1'' \<rparr>],
            availabilities = [mondayWindow], timeOffs = [], appointments = [],
            notifications = [] \<rparr>"

definition body0 :: CreateBody where
  "body0 = \<lparr> cb_serviceId = Some ''svc1'', cb_staffId = Some ''S'', cb_clientId = Some ''C'',
              cb_start = Some (Date 1794214800000), cb_end = Some (Date 1794216600000),
              cb_notes = None \<rparr>"

text \<open>The appointment that \<open>body0\<close> books, and the database holding it.\<close>

definition appt0 :: Appointment where
  "appt0 = \<lparr> ap_id = ''a1'', ap_tenantId = ''tenantA'', ap_serviceId = ''svc1'',
              ap_staffId = ''S'', ap_clientId = ''C'',
              ap_start = 1794214800000, ap_end = 1794216600000, ap_status = PENDING,
              ap_price = 50, ap_currency = ''USD'', ap_notes = None,
              ap_updatedAt = 1793664000000, ap_canceledAt = None \<rparr>"

definition db1 :: Database where
  "db1 = db0\<lparr> appointments := [appt0] \<rparr>"

definition staffUser :: ReqUser where
  "staffUser = \<lparr> ru_role = Some ''STAFF'', ru_tenantRole = None \<rparr>"

text \<open>
  A booking of 45 minutes for the 30-minute service, a move of \<open>appt0\<close> to 10:00--10:30
  and a move to 10:00--10:45.
\<close>

definition bodyLong :: CreateBody where
  "bodyLong = body0\<lparr> cb_end := Some (Date 1794217500000) \<rparr>"

definition reschedule0 :: UpdateBody where
  "reschedule0 = \<lparr> ub_status = None, ub_start = Some (Date 1794218400000),
                    ub_end = Some (Date 1794220200000), ub_notes = None \<rparr>"

definition rescheduleLong :: UpdateBody where
  "rescheduleLong = reschedule0\<lparr> ub_end := Some (Date 1794221100000) \<rparr>"

text \<open>
  A second booking with the same staff and client at 09:15--09:45, which overlaps
  \<open>appt0\<close>; one at 09:30--10:00, which touches it; and a move of \<open>appt0\<close> itself to
  09:15--09:45.
\<close>

definition bodyOverlap :: CreateBody where
  "bodyOverlap = body0\<lparr> cb_start := Some (Date 1794215700000), cb_end := Some (Date 1794217500000) \<rparr>"

definition bodyTouch :: CreateBody where
  "bodyTouch = body0\<lparr> cb_start := Some (Date 1794216600000), cb_end := Some (Date 1794218400000) \<rparr>"

definition rescheduleSelf :: UpdateBody where
  "rescheduleSelf = \<lparr> ub_status = None, ub_start = Some (Date 1794215700000),
                       ub_end = Some (Date 1794217500000), ub_notes = None \<rparr>"

text \<open>The staff member takes Monday 09:00--10:00 off.\<close>

definition vacation :: TimeOff where
  "vacation = \<lparr> to_staffId = ''S'', to_tenantId = ''tenantA'', to_start = 1794214800000,
                 to_end = 1794218400000, to_reason = Some ''Vacation'' \<rparr>"

definition dbOff :: Database where
  "dbOff = db0\<lparr> timeOffs := [vacation] \<rparr>"

text \<open>
  A Sunday window, 09:00--17:00, as the staff member's only availability, with a booking
  on Sunday 2026-11-08 from 10:00 to 10:30 UTC.
\<close>

definition sundayWindow :: Availability where
  "sundayWindow = mondayWindow\<lparr> av_dayOfWeek := Some 0, av_endTime := Some ''17:00'' \<rparr>"

definition dbSunday :: Database where
  "dbSunday = db0\<lparr> availabilities := [sundayWindow] \<rparr>"

definition bodySunday :: CreateBody where
  "bodySunday = body0\<lparr> cb_start := Some (Date 1794132000000), cb_end := Some (Date 1794133800000) \<rparr>"

text \<open>
  A Monday window, 09:00--23:30, and a 90-minute service, with a booking from Monday
  2026-11-09 23:00 to Tuesday 2026-11-10 00:30 UTC.
\<close>

definition lateWindow :: Availability where
  "lateWindow = mondayWindow\<lparr> av_endTime := Some ''23:30'' \<rparr>"

definition service90 :: Service where
  "service90 = service30\<lparr> svc_id := ''svc2'', svc_title := ''Colour'', svc_duration := 90 \<rparr>"

definition dbLate :: Database where
  "dbLate = db0\<lparr> services := [service90],
                  staffServices := [\<lparr> ss_staffId = ''S'', ss_serviceId = ''svc2'' \<rparr>],
                  availabilities := [lateWindow] \<rparr>"

definition bodyLate :: CreateBody where
  "bodyLate = body0\<lparr> cb_serviceId := Some ''svc2'', cb_start := Some (Date 1794265200000),
                      cb_end := Some (Date 1794270600000) \<rparr>"

text \<open>
  A database in which every reschedule check would fail for \<open>appt0\<close>: its service is
  gone, the staff member is off for the whole period, and a second active appointment
  of the same staff member and client covers the same slot. \<open>appt0\<close> itself is cancelled.
\<close>

definition dbHostile :: Database where
  "dbHostile = db0\<lparr> services := [],
                     timeOffs := [vacation\<lparr> to_start := 0, to_end := 8640000000000000 \<rparr>],
                     appointments := [appt0\<lparr> ap_status := CANCELLED,
                                             ap_canceledAt := Some 1793664000000 \<rparr>,
                                      appt0\<lparr> ap_id := ''a2'', ap_status := CONFIRMED \<rparr>] \<rparr>"

definition statusOnly :: UpdateBody where
  "statusOnly = \<lparr> ub_status = Some CONFIRMED, ub_start = None, ub_end = None, ub_notes = None \<rparr>"

text \<open>
  The client of \<open>body0\<close> is a member of another tenant only.
\<close>

definition dbOtherTenant :: Database where
  "dbOtherTenant = db0\<lparr> tenantUsers := [\<lparr> tu_tenantId = ''tenantB'', tu_userId = ''C'' \<rparr>] \<rparr>"

text \<open>
  A \<^verbatim>\<open>findMany\<close> on appointments whose filter names another tenant, a \<^verbatim>\<open>create\<close>
  whose payload names another tenant, and a \<^verbatim>\<open>findMany\<close> on users.
\<close>

definition paramsFind :: "unit Params" where
  "paramsFind = \<lparr> pm_model = Some ''Appointment'', pm_action = ''findMany'',
                   pm_args = Some \<lparr> ar_where = Some [''tenantId'' \<mapsto> JStr ''tenantB'',
                                                       ''staffId'' \<mapsto> JStr ''S''],
                                    ar_data = None, ar_rest = () \<rparr> \<rparr>"

definition paramsCreate :: "unit Params" where
  "paramsCreate = \<lparr> pm_model = Some ''Service'', pm_action = ''create'',
                     pm_args = Some \<lparr> ar_where = None,
                                      ar_data = Some [''tenantId'' \<mapsto> JStr ''tenantB'',
                                                      ''title'' \<mapsto> JStr ''Haircut''],
                                      ar_rest = () \<rparr> \<rparr>"

definition paramsUser :: "unit Params" where
  "paramsUser = \<lparr> pm_model = Some ''User'', pm_action = ''findMany'',
                   pm_args = Some \<lparr> ar_where = Some [''id'' \<mapsto> JStr ''C''],
                                    ar_data = None, ar_rest = () \<rparr> \<rparr>"

section \<open>Properties of the model\<close>

subsection \<open>What a successful booking has passed\<close>

lemma createAppointment_char:
  "case createAppointment now newId db t body of
     (Inl err, db') \<Rightarrow> db' = db
   | (Inr appt, db') \<Rightarrow>
     (\<exists>serviceId staffId clientId s e service.
           cb_serviceId body = Some serviceId \<and> cb_staffId body = Some staffId
         \<and> cb_clientId body = Some clientId
         \<and> cb_start body = Some (Date s) \<and> cb_end body = Some (Date e)
         \<and> s < e \<and> now \<le> s
         \<and> find (\<lambda>s. svc_id s = serviceId \<and> svc_tenantId s = t
                               \<and> svc_active s \<and> svc_deletedAt s = None) (services db) = Some service
         \<and> find (\<lambda>s. stf_id s = staffId \<and> stf_tenantId s = t
                               \<and> stf_deletedAt s = None) (staffs db) \<noteq> None
         \<and> find (\<lambda>u. usr_id u = clientId \<and> usr_deletedAt u = None) (users db) \<noteq> None
         \<and> find (\<lambda>x. ss_staffId x = staffId \<and> ss_serviceId x = serviceId)
                          (staffServices db) \<noteq> None
         \<and> newDate (s + svc_duration service * 60000) = Date e
         \<and> validateStaffAvailabilityAndTimeOff db t staffId s e = Inr ()
         \<and> staffConflict db t staffId None s e = None
         \<and> clientConflict db t clientId None s e = None
         \<and> appt = newAppointment now newId t serviceId staffId clientId s e service (cb_notes body)
         \<and> db' = db\<lparr> appointments := appointments db @ [appt],
                      notifications := notifications db @ [newNotification t clientId appt service] \<rparr>)"
  by (auto simp: createAppointment_def Let_def falsy_str_def split: option.split jsdate.split sum.split)

lemma createAppointment_error_frame:
  "fst (createAppointment now newId db t body) = Inl err \<Longrightarrow>
   snd (createAppointment now newId db t body) = db"
  using createAppointment_char [where now=now and newId=newId and db=db and t=t and body=body]
  by (cases "createAppointment now newId db t body") simp

lemma createAppointment_success:
  assumes "fst (createAppointment now newId db t body) = Inr appt"
  obtains serviceId staffId clientId s e service where
    "cb_serviceId body = Some serviceId" "cb_staffId body = Some staffId"
    "cb_clientId body = Some clientId"
    "cb_start body = Some (Date s)" "cb_end body = Some (Date e)" "s < e" "now \<le> s"
    "find (\<lambda>s. svc_id s = serviceId \<and> svc_tenantId s = t
                  \<and> svc_active s \<and> svc_deletedAt s = None) (services db) = Some service"
    "find (\<lambda>s. stf_id s = staffId \<and> stf_tenantId s = t
                  \<and> stf_deletedAt s = None) (staffs db) \<noteq> None"
    "find (\<lambda>u. usr_id u = clientId \<and> usr_deletedAt u = None) (users db) \<noteq> None"
    "find (\<lambda>x. ss_staffId x = staffId \<and> ss_serviceId x = serviceId) (staffServices db) \<noteq> None"
    "newDate (s + svc_duration service * 60000) = Date e"
    "validateStaffAvailabilityAndTimeOff db t staffId s e = Inr ()"
    "staffConflict db t staffId None s e = None"
    "clientConflict db t clientId None s e = None"
    "appt = newAppointment now newId t serviceId staffId clientId s e service (cb_notes body)"
    "snd (createAppointment now newId db t body) =
       db\<lparr> appointments := appointments db @ [appt],
           notifications := notifications db @ [newNotification t clientId appt service] \<rparr>"
proof -
  obtain r db' where c: "createAppointment now newId db t body = (r, db')"
    by (cases "createAppointment now newId db t body")
  with assms have r: "r = Inr appt" by simp
  from createAppointment_char [where now=now and newId=newId and db=db and t=t and body=body] c r that
  show thesis by simp blast
qed

lemma newDate_eq_Date: "newDate v = Date e \<Longrightarrow> e = v"
  by (simp add: newDate_def split: if_splits)

lemma create_duration:
  "fst (createAppointment now newId db t cbody) = Inr appt \<longrightarrow>
     (\<exists>service. find (\<lambda>sv. svc_id sv = ap_serviceId appt \<and> svc_tenantId sv = t
                           \<and> svc_active sv \<and> svc_deletedAt sv = None) (services db) = Some service
        \<and> ap_end appt - ap_start appt = svc_duration service * 60000
        \<and> appt \<in> set (appointments (snd (createAppointment now newId db t cbody))))"
proof
  assume "fst (createAppointment now newId db t cbody) = Inr appt"
  then show "\<exists>service. find (\<lambda>sv. svc_id sv = ap_serviceId appt \<and> svc_tenantId sv = t
                           \<and> svc_active sv \<and> svc_deletedAt sv = None) (services db) = Some service
        \<and> ap_end appt - ap_start appt = svc_duration service * 60000
        \<and> appt \<in> set (appointments (snd (createAppointment now newId db t cbody)))"
  proof (rule createAppointment_success)
    fix serviceId staffId clientId s e service
    assume a: "find (\<lambda>s. svc_id s = serviceId \<and> svc_tenantId s = t
                  \<and> svc_active s \<and> svc_deletedAt s = None) (services db) = Some service"
      "newDate (s + svc_duration service * 60000) = Date e"
      "appt = newAppointment now newId t serviceId staffId clientId s e service (cb_notes cbody)"
      "snd (createAppointment now newId db t cbody) =
       db\<lparr> appointments := appointments db @ [appt],
           notifications := notifications db @ [newNotification t clientId appt service] \<rparr>"
    from a(2) have "e = s + svc_duration service * 60000" by (rule newDate_eq_Date)
    with a(1,3,4) show ?thesis
      by (intro exI [of _ service]) (simp add: newAppointment_def)
  qed
qed

lemma create_mismatch_rejected:
  "cb_serviceId cbody = Some serviceId \<and> cb_start cbody = Some (Date s) \<and> cb_end cbody = Some (Date e)
   \<and> find (\<lambda>sv. svc_id sv = serviceId \<and> svc_tenantId sv = t
                  \<and> svc_active sv \<and> svc_deletedAt sv = None) (services db) = Some service
   \<and> e \<noteq> s + svc_duration service * 60000
   \<longrightarrow> (\<exists>err. fst (createAppointment now newId db t cbody) = Inl err)
       \<and> snd (createAppointment now newId db t cbody) = db"
proof
  assume h: "cb_serviceId cbody = Some serviceId \<and> cb_start cbody = Some (Date s) \<and> cb_end cbody = Some (Date e)
   \<and> find (\<lambda>sv. svc_id sv = serviceId \<and> svc_tenantId sv = t
                  \<and> svc_active sv \<and> svc_deletedAt sv = None) (services db) = Some service
   \<and> e \<noteq> s + svc_duration service * 60000"
  have "\<exists>err. fst (createAppointment now newId db t cbody) = Inl err"
  proof (cases "fst (createAppointment now newId db t cbody)")
    case (Inl err)
    then show ?thesis by blast
  next
    case (Inr appt)
    then show ?thesis
    proof (rule createAppointment_success)
      fix serviceId' s' e' service'
      assume "cb_serviceId cbody = Some serviceId'" "cb_start cbody = Some (Date s')"
        "cb_end cbody = Some (Date e')"
        "find (\<lambda>s. svc_id s = serviceId' \<and> svc_tenantId s = t
                  \<and> svc_active s \<and> svc_deletedAt s = None) (services db) = Some service'"
        "newDate (s' + svc_duration service' * 60000) = Date e'"
      with h have "newDate (s + svc_duration service * 60000) = Date e" by simp
      with h show ?thesis by (auto dest: newDate_eq_Date)
    qed
  qed
  then show "(\<exists>err. fst (createAppointment now newId db t cbody) = Inl err)
       \<and> snd (createAppointment now newId db t cbody) = db"
    by (auto dest: createAppointment_error_frame)
qed

lemma create_mismatch_error:
  "cb_serviceId cbody = Some serviceId \<and> serviceId \<noteq> []
   \<and> cb_staffId cbody = Some staffId \<and> staffId \<noteq> []
   \<and> cb_clientId cbody = Some clientId \<and> clientId \<noteq> []
   \<and> cb_start cbody = Some (Date s) \<and> cb_end cbody = Some (Date e) \<and> s < e \<and> now \<le> s
   \<and> find (\<lambda>sv. svc_id sv = serviceId \<and> svc_tenantId sv = t
                  \<and> svc_active sv \<and> svc_deletedAt sv = None) (services db) = Some service
   \<and> find (\<lambda>s. stf_id s = staffId \<and> stf_tenantId s = t
                  \<and> stf_deletedAt s = None) (staffs db) \<noteq> None
   \<and> find (\<lambda>u. usr_id u = clientId \<and> usr_deletedAt u = None) (users db) \<noteq> None
   \<and> find (\<lambda>x. ss_staffId x = staffId \<and> ss_serviceId x = serviceId) (staffServices db) \<noteq> None
   \<and> e \<noteq> s + svc_duration service * 60000
   \<longrightarrow> createAppointment now newId db t cbody = (Inl (EndMustBeExactly (svc_duration service)), db)"
  by (auto simp: createAppointment_def falsy_str_def newDate_def)

subsection \<open>What a successful update has passed\<close>

lemma rescheduleChecks_char:
  "case rescheduleChecks now db t apptId appointment body of
     Inl err \<Rightarrow> True
   | Inr (ns, ne) \<Rightarrow>
       (\<exists>service.
           ub_start body = Some (Date ns) \<and> ub_end body = Some (Date ne)
         \<and> ns < ne \<and> now \<le> ns
         \<and> find (\<lambda>s. svc_id s = ap_serviceId appointment) (services db) = Some service
         \<and> newDate (ns + svc_duration service * 60000) = Date ne
         \<and> validateStaffAvailabilityAndTimeOff db t (ap_staffId appointment) ns ne = Inr ()
         \<and> staffConflict db t (ap_staffId appointment) (Some apptId) ns ne = None
         \<and> clientConflict db t (ap_clientId appointment) (Some apptId) ns ne = None)"
  by (auto simp: rescheduleChecks_def split: option.split jsdate.split sum.split)

lemma rescheduleChecks_success:
  assumes "rescheduleChecks now db t apptId appointment body = Inr (ns, ne)"
  obtains service where
    "ub_start body = Some (Date ns)" "ub_end body = Some (Date ne)" "ns < ne" "now \<le> ns"
    "find (\<lambda>s. svc_id s = ap_serviceId appointment) (services db) = Some service"
    "newDate (ns + svc_duration service * 60000) = Date ne"
    "validateStaffAvailabilityAndTimeOff db t (ap_staffId appointment) ns ne = Inr ()"
    "staffConflict db t (ap_staffId appointment) (Some apptId) ns ne = None"
    "clientConflict db t (ap_clientId appointment) (Some apptId) ns ne = None"
  using rescheduleChecks_char [where now=now and db=db and t=t and apptId=apptId
      and appointment=appointment and body=body] assms that
  by simp blast

lemma updateAppointment_char:
  "case updateAppointment now db t user apptId body of
     (Inl err, db') \<Rightarrow> db' = db
   | (Inr appt, db') \<Rightarrow>
       requireTenantRole user [''OWNER'', ''ADMIN'', ''STAFF''] = Inr ()
     \<and> (\<exists>appointment row ns ne.
           find (\<lambda>a. ap_id a = apptId \<and> ap_tenantId a = t) (appointments db) = Some appointment
         \<and> find (\<lambda>a. ap_id a = apptId) (appointments db) = Some row
         \<and> (if ub_start body \<noteq> None \<or> ub_end body \<noteq> None
             then rescheduleChecks now db t apptId appointment body = Inr (ns, ne)
             else ns = ap_start appointment \<and> ne = ap_end appointment)
         \<and> appt = updateData now body ns ne row
         \<and> db' = db\<lparr> appointments :=
                       map (\<lambda>a. if ap_id a = apptId then updateData now body ns ne a else a)
                           (appointments db) \<rparr>)"
  by (auto simp: updateAppointment_def split: option.split sum.split)

lemma updateAppointment_error_frame:
  "fst (updateAppointment now db t user apptId body) = Inl err \<Longrightarrow>
   snd (updateAppointment now db t user apptId body) = db"
  using updateAppointment_char [where now=now and db=db and t=t and user=user
      and apptId=apptId and body=body]
  by (cases "updateAppointment now db t user apptId body") simp

lemma updateAppointment_success:
  assumes "fst (updateAppointment now db t user apptId body) = Inr appt"
  obtains appointment row ns ne where
    "requireTenantRole user [''OWNER'', ''ADMIN'', ''STAFF''] = Inr ()"
    "find (\<lambda>a. ap_id a = apptId \<and> ap_tenantId a = t) (appointments db) = Some appointment"
    "find (\<lambda>a. ap_id a = apptId) (appointments db) = Some row"
    "if ub_start body \<noteq> None \<or> ub_end body \<noteq> None
     then rescheduleChecks now db t apptId appointment body = Inr (ns, ne)
     else ns = ap_start appointment \<and> ne = ap_end appointment"
    "appt = updateData now body ns ne row"
    "snd (updateAppointment now db t user apptId body) =
       db\<lparr> appointments :=
             map (\<lambda>a. if ap_id a = apptId then updateData now body ns ne a else a)
                 (appointments db) \<rparr>"
proof -
  obtain r db' where c: "updateAppointment now db t user apptId body = (r, db')"
    by (cases "updateAppointment now db t user apptId body")
  with assms have r: "r = Inr appt" by simp
  from updateAppointment_char [where now=now and db=db and t=t and user=user
      and apptId=apptId and body=body] c r that
  show thesis by simp blast
qed

lemma update_duration:
  "fst (updateAppointment now db t user apptId ubody) = Inr apptU
   \<and> (ub_start ubody \<noteq> None \<or> ub_end ubody \<noteq> None) \<longrightarrow>
     (\<exists>appointment service.
        find (\<lambda>a. ap_id a = apptId \<and> ap_tenantId a = t) (appointments db) = Some appointment
      \<and> find (\<lambda>sv. svc_id sv = ap_serviceId appointment) (services db) = Some service
      \<and> ap_end apptU - ap_start apptU = svc_duration service * 60000)"
proof
  assume h: "fst (updateAppointment now db t user apptId ubody) = Inr apptU
   \<and> (ub_start ubody \<noteq> None \<or> ub_end ubody \<noteq> None)"
  then have "fst (updateAppointment now db t user apptId ubody) = Inr apptU" by simp
  then show "\<exists>appointment service.
        find (\<lambda>a. ap_id a = apptId \<and> ap_tenantId a = t) (appointments db) = Some appointment
      \<and> find (\<lambda>sv. svc_id sv = ap_serviceId appointment) (services db) = Some service
      \<and> ap_end apptU - ap_start apptU = svc_duration service * 60000"
  proof (rule updateAppointment_success)
    fix appointment row ns ne
    assume a: "find (\<lambda>a. ap_id a = apptId \<and> ap_tenantId a = t) (appointments db) = Some appointment"
      "if ub_start ubody \<noteq> None \<or> ub_end ubody \<noteq> None
       then rescheduleChecks now db t apptId appointment ubody = Inr (ns, ne)
       else ns = ap_start appointment \<and> ne = ap_end appointment"
      "apptU = updateData now ubody ns ne row"
    from a(2) h have "rescheduleChecks now db t apptId appointment ubody = Inr (ns, ne)" by simp
    then show ?thesis
    proof (rule rescheduleChecks_success)
      fix service
      assume b: "ub_start ubody = Some (Date ns)"
        "find (\<lambda>s. svc_id s = ap_serviceId appointment) (services db) = Some service"
        "newDate (ns + svc_duration service * 60000) = Date ne"
      from b(3) have "ne = ns + svc_duration service * 60000" by (rule newDate_eq_Date)
      with a(1,3) b(1,2) show ?thesis
        by (intro exI [of _ appointment] exI [of _ service]) (simp add: updateData_def)
    qed
  qed
qed

lemma update_mismatch_rejected:
  "ub_start ubody = Some (Date s) \<and> ub_end ubody = Some (Date e)
   \<and> find (\<lambda>a. ap_id a = apptId \<and> ap_tenantId a = t) (appointments db) = Some appointment
   \<and> find (\<lambda>sv. svc_id sv = ap_serviceId appointment) (services db) = Some service
   \<and> e \<noteq> s + svc_duration service * 60000
   \<longrightarrow> (\<exists>err. fst (updateAppointment now db t user apptId ubody) = Inl err)
       \<and> snd (updateAppointment now db t user apptId ubody) = db"
proof
  assume h: "ub_start ubody = Some (Date s) \<and> ub_end ubody = Some (Date e)
   \<and> find (\<lambda>a. ap_id a = apptId \<and> ap_tenantId a = t) (appointments db) = Some appointment
   \<and> find (\<lambda>sv. svc_id sv = ap_serviceId appointment) (services db) = Some service
   \<and> e \<noteq> s + svc_duration service * 60000"
  have "\<exists>err. fst (updateAppointment now db t user apptId ubody) = Inl err"
  proof (cases "fst (updateAppointment now db t user apptId ubody)")
    case (Inl err)
    then show ?thesis by blast
  next
    case (Inr appt)
    then show ?thesis
    proof (rule updateAppointment_success)
      fix appointment' ns ne
      assume a: "find (\<lambda>a. ap_id a = apptId \<and> ap_tenantId a = t) (appointments db) = Some appointment'"
        "if ub_start ubody \<noteq> None \<or> ub_end ubody \<noteq> None
         then rescheduleChecks now db t apptId appointment' ubody = Inr (ns, ne)
         else ns = ap_start appointment' \<and> ne = ap_end appointment'"
      from a(1) h have eq: "appointment' = appointment" by simp
      from a(2) h eq have "rescheduleChecks now db t apptId appointment ubody = Inr (ns, ne)" by simp
      then show ?thesis
      proof (rule rescheduleChecks_success)
        fix service'
        assume "ub_start ubody = Some (Date ns)" "ub_end ubody = Some (Date ne)"
          "find (\<lambda>s. svc_id s = ap_serviceId appointment) (services db) = Some service'"
          "newDate (ns + svc_duration service' * 60000) = Date ne"
        with h have "newDate (s + svc_duration service * 60000) = Date e" by simp
        with h show ?thesis by (auto dest: newDate_eq_Date)
      qed
    qed
  qed
  then show "(\<exists>err. fst (updateAppointment now db t user apptId ubody) = Inl err)
       \<and> snd (updateAppointment now db t user apptId ubody) = db"
    by (auto dest: updateAppointment_error_frame)
qed

lemma update_mismatch_error:
  "requireTenantRole user [''OWNER'', ''ADMIN'', ''STAFF''] = Inr ()
   \<and> ub_start ubody = Some (Date s) \<and> ub_end ubody = Some (Date e) \<and> s < e \<and> now \<le> s
   \<and> find (\<lambda>a. ap_id a = apptId \<and> ap_tenantId a = t) (appointments db) = Some appointment
   \<and> find (\<lambda>sv. svc_id sv = ap_serviceId appointment) (services db) = Some service
   \<and> e \<noteq> s + svc_duration service * 60000
   \<longrightarrow> updateAppointment now db t user apptId ubody
         = (Inl (RescheduledEndMustBeExactly (svc_duration service)), db)"
  by (auto simp: updateAppointment_def rescheduleChecks_def newDate_def)

subsection \<open>The example requests\<close>

lemma ex_create0: "fst (createAppointment now0 ''a1'' db0 ''tenantA'' body0) = Inr appt0"
  by code_simp

lemma ex_service0:
  "find (\<lambda>sv. svc_id sv = ''svc1'' \<and> svc_tenantId sv = ''tenantA''
               \<and> svc_active sv \<and> svc_deletedAt sv = None) (services db0) = Some service30"
  by code_simp

lemma ex_update0:
  "fst (updateAppointment now0 db1 ''tenantA'' (Some staffUser) ''a1'' reschedule0)
   = Inr (appt0\<lparr> ap_start := 1794218400000, ap_end := 1794220200000 \<rparr>)"
  by code_simp

subsection \<open>Duration law\<close>

text \<open>
  Claim C1 (duration law). A booking that \<open>createAppointment\<close> accepts, and an
  appointment that \<open>updateAppointment\<close> moves to a new interval, lasts exactly the
  duration of its service: end minus start is \<open>svc_duration\<close> minutes (60000 ms each),
  and the created appointment is in the table. When the supplied end is not start plus
  that duration, the request is rejected and the database is left as it was; the error
  raised by the duration check, which is reached once the earlier validation steps have
  passed, carries the expected duration.
\<close>

theorem duration_law:
  "(fst (createAppointment now newId db t cbody) = Inr appt \<longrightarrow>
     (\<exists>service. find (\<lambda>sv. svc_id sv = ap_serviceId appt \<and> svc_tenantId sv = t
                           \<and> svc_active sv \<and> svc_deletedAt sv = None) (services db) = Some service
        \<and> ap_end appt - ap_start appt = svc_duration service * 60000
        \<and> appt \<in> set (appointments (snd (createAppointment now newId db t cbody)))))
 \<and> (cb_serviceId cbody = Some serviceId \<and> cb_start cbody = Some (Date s) \<and> cb_end cbody = Some (Date e)
   \<and> find (\<lambda>sv. svc_id sv = serviceId \<and> svc_tenantId sv = t
                  \<and> svc_active sv \<and> svc_deletedAt sv = None) (services db) = Some service
   \<and> e \<noteq> s + svc_duration service * 60000
   \<longrightarrow> (\<exists>err. fst (createAppointment now newId db t cbody) = Inl err)
       \<and> snd (createAppointment now newId db t cbody) = db)
 \<and> (cb_serviceId cbody = Some serviceId \<and> serviceId \<noteq> []
   \<and> cb_staffId cbody = Some staffId \<and> staffId \<noteq> []
   \<and> cb_clientId cbody = Some clientId \<and> clientId \<noteq> []
   \<and> cb_start cbody = Some (Date s) \<and> cb_end cbody = Some (Date e) \<and> s < e \<and> now \<le> s
   \<and> find (\<lambda>sv. svc_id sv = serviceId \<and> svc_tenantId sv = t
                  \<and> svc_active sv \<and> svc_deletedAt sv = None) (services db) = Some service
   \<and> find (\<lambda>s. stf_id s = staffId \<and> stf_tenantId s = t
                  \<and> stf_deletedAt s = None) (staffs db) \<noteq> None
   \<and> find (\<lambda>u. usr_id u = clientId \<and> usr_deletedAt u = None) (users db) \<noteq> None
   \<and> find (\<lambda>x. ss_staffId x = staffId \<and> ss_serviceId x = serviceId) (staffServices db) \<noteq> None
   \<and> e \<noteq> s + svc_duration service * 60000
   \<longrightarrow> createAppointment now newId db t cbody = (Inl (EndMustBeExactly (svc_duration service)), db))
 \<and> (fst (updateAppointment now db t user apptId ubody) = Inr apptU
   \<and> (ub_start ubody \<noteq> None \<or> ub_end ubody \<noteq> None) \<longrightarrow>
     (\<exists>appointment service.
        find (\<lambda>a. ap_id a = apptId \<and> ap_tenantId a = t) (appointments db) = Some appointment
      \<and> find (\<lambda>sv. svc_id sv = ap_serviceId appointment) (services db) = Some service
      \<and> ap_end apptU - ap_start apptU = svc_duration service * 60000))
 \<and> (ub_start ubody = Some (Date sU) \<and> ub_end ubody = Some (Date eU)
   \<and> find (\<lambda>a. ap_id a = apptId \<and> ap_tenantId a = t) (appointments db) = Some appointment
   \<and> find (\<lambda>sv. svc_id sv = ap_serviceId appointment) (services db) = Some serviceU
   \<and> eU \<noteq> sU + svc_duration serviceU * 60000
   \<longrightarrow> (\<exists>err. fst (updateAppointment now db t user apptId ubody) = Inl err)
       \<and> snd (updateAppointment now db t user apptId ubody) = db)
 \<and> (requireTenantRole user [''OWNER'', ''ADMIN'', ''STAFF''] = Inr ()
   \<and> ub_start ubody = Some (Date sU) \<and> ub_end ubody = Some (Date eU) \<and> sU < eU \<and> now \<le> sU
   \<and> find (\<lambda>a. ap_id a = apptId \<and> ap_tenantId a = t) (appointments db) = Some appointment
   \<and> find (\<lambda>sv. svc_id sv = ap_serviceId appointment) (services db) = Some serviceU
   \<and> eU \<noteq> sU + svc_duration serviceU * 60000
   \<longrightarrow> updateAppointment now db t user apptId ubody
         = (Inl (RescheduledEndMustBeExactly (svc_duration serviceU)), db))"
  by (intro conjI create_duration create_mismatch_rejected create_mismatch_error
      update_duration update_mismatch_rejected update_mismatch_error)

theorem duration_law_witness:
  "fst (createAppointment now0 ''a1'' db0 ''tenantA'' body0) = Inr appt0
   \<and> ap_end appt0 - ap_start appt0 = 30 * 60000
   \<and> createAppointment now0 ''a2'' db0 ''tenantA'' bodyLong = (Inl (EndMustBeExactly 30), db0)
   \<and> fst (updateAppointment now0 db1 ''tenantA'' (Some staffUser) ''a1'' reschedule0)
       = Inr (appt0\<lparr> ap_start := 1794218400000, ap_end := 1794220200000 \<rparr>)
   \<and> (1794220200000 :: int) - 1794218400000 = 30 * 60000
   \<and> updateAppointment now0 db1 ''tenantA'' (Some staffUser) ''a1'' rescheduleLong
       = (Inl (RescheduledEndMustBeExactly 30), db1)"
proof -
  have sid: "ap_serviceId appt0 = ''svc1''" "svc_duration service30 = 30"
    by (simp_all add: appt0_def service30_def)
  from duration_law [where now=now0 and newId="''a1''" and db=db0 and t="''tenantA''"
      and cbody=body0 and appt=appt0] ex_create0 ex_service0 sid
  have w1: "ap_end appt0 - ap_start appt0 = 30 * 60000" by auto
  have h3: "cb_serviceId bodyLong = Some ''svc1'' \<and> ''svc1'' \<noteq> []
     \<and> cb_staffId bodyLong = Some ''S'' \<and> ''S'' \<noteq> []
     \<and> cb_clientId bodyLong = Some ''C'' \<and> ''C'' \<noteq> []
     \<and> cb_start bodyLong = Some (Date 1794214800000) \<and> cb_end bodyLong = Some (Date 1794217500000)
     \<and> (1794214800000 :: int) < 1794217500000 \<and> now0 \<le> 1794214800000
     \<and> find (\<lambda>sv. svc_id sv = ''svc1'' \<and> svc_tenantId sv = ''tenantA''
                  \<and> svc_active sv \<and> svc_deletedAt sv = None) (services db0) = Some service30
     \<and> find (\<lambda>s. stf_id s = ''S'' \<and> stf_tenantId s = ''tenantA''
                  \<and> stf_deletedAt s = None) (staffs db0) \<noteq> None
     \<and> find (\<lambda>u. usr_id u = ''C'' \<and> usr_deletedAt u = None) (users db0) \<noteq> None
     \<and> find (\<lambda>x. ss_staffId x = ''S'' \<and> ss_serviceId x = ''svc1'') (staffServices db0) \<noteq> None
     \<and> (1794217500000 :: int) \<noteq> 1794214800000 + svc_duration service30 * 60000"
    by code_simp
  from duration_law [where now=now0 and newId="''a2''" and db=db0 and t="''tenantA''"
      and cbody=bodyLong and serviceId="''svc1''" and staffId="''S''" and clientId="''C''"
      and s=1794214800000 and e=1794217500000 and service=service30] h3 sid
  have w2: "createAppointment now0 ''a2'' db0 ''tenantA'' bodyLong = (Inl (EndMustBeExactly 30), db0)"
    by simp
  have h6: "requireTenantRole (Some staffUser) [''OWNER'', ''ADMIN'', ''STAFF''] = Inr ()
     \<and> ub_start rescheduleLong = Some (Date 1794218400000)
     \<and> ub_end rescheduleLong = Some (Date 1794221100000)
     \<and> (1794218400000 :: int) < 1794221100000 \<and> now0 \<le> 1794218400000
     \<and> find (\<lambda>a. ap_id a = ''a1'' \<and> ap_tenantId a = ''tenantA'') (appointments db1) = Some appt0
     \<and> find (\<lambda>sv. svc_id sv = ap_serviceId appt0) (services db1) = Some service30
     \<and> (1794221100000 :: int) \<noteq> 1794218400000 + svc_duration service30 * 60000"
    by code_simp
  from duration_law [where now=now0 and db=db1 and t="''tenantA''" and user="Some staffUser"
      and apptId="''a1''" and ubody=rescheduleLong and sU=1794218400000 and eU=1794221100000
      and appointment=appt0 and serviceU=service30] h6 sid
  have w3: "updateAppointment now0 db1 ''tenantA'' (Some staffUser) ''a1'' rescheduleLong
       = (Inl (RescheduledEndMustBeExactly 30), db1)"
    by simp
  from ex_create0 w1 w2 ex_update0 w3 show ?thesis by simp
qed

subsection \<open>Conflict detection\<close>

lemma staffConflict_iff:
  "staffConflict db t staffId notId s e \<noteq> None \<longleftrightarrow>
     (\<exists>a\<in>set (appointments db). ap_tenantId a = t \<and> ap_staffId a = staffId
        \<and> (ap_status a = PENDING \<or> ap_status a = CONFIRMED)
        \<and> (\<forall>i. notId = Some i \<longrightarrow> ap_id a \<noteq> i)
        \<and> ap_start a < e \<and> ap_end a > s)"
  by (cases notId) (auto simp: staffConflict_def find_None_iff)

lemma clientConflict_iff:
  "clientConflict db t clientId notId s e \<noteq> None \<longleftrightarrow>
     (\<exists>a\<in>set (appointments db). ap_tenantId a = t \<and> ap_clientId a = clientId
        \<and> (ap_status a = PENDING \<or> ap_status a = CONFIRMED)
        \<and> (\<forall>i. notId = Some i \<longrightarrow> ap_id a \<noteq> i)
        \<and> ap_start a < e \<and> ap_end a > s)"
  by (cases notId) (auto simp: clientConflict_def find_None_iff)

lemma touching_no_conflict:
  "(\<forall>a\<in>set (appointments db). ap_end a \<le> s \<or> e \<le> ap_start a) \<longrightarrow>
     staffConflict db t staffId notId s e = None \<and> clientConflict db t clientId notId s e = None"
  by (auto simp: staffConflict_def clientConflict_def find_None_iff)

lemma create_conflict_rejected:
  "cb_staffId cbody = Some staffId \<and> cb_clientId cbody = Some clientId
   \<and> cb_start cbody = Some (Date s) \<and> cb_end cbody = Some (Date e)
   \<and> (staffConflict db t staffId None s e \<noteq> None \<or> clientConflict db t clientId None s e \<noteq> None)
   \<longrightarrow> (\<exists>err. fst (createAppointment now newId db t cbody) = Inl err)
       \<and> snd (createAppointment now newId db t cbody) = db"
proof
  assume h: "cb_staffId cbody = Some staffId \<and> cb_clientId cbody = Some clientId
   \<and> cb_start cbody = Some (Date s) \<and> cb_end cbody = Some (Date e)
   \<and> (staffConflict db t staffId None s e \<noteq> None \<or> clientConflict db t clientId None s e \<noteq> None)"
  have "\<exists>err. fst (createAppointment now newId db t cbody) = Inl err"
  proof (cases "fst (createAppointment now newId db t cbody)")
    case (Inl err)
    then show ?thesis by blast
  next
    case (Inr appt)
    then show ?thesis
    proof (rule createAppointment_success)
      fix staffId' clientId' s' e'
      assume "cb_staffId cbody = Some staffId'" "cb_clientId cbody = Some clientId'"
        "cb_start cbody = Some (Date s')" "cb_end cbody = Some (Date e')"
        "staffConflict db t staffId' None s' e' = None"
        "clientConflict db t clientId' None s' e' = None"
      with h show ?thesis by simp
    qed
  qed
  then show "(\<exists>err. fst (createAppointment now newId db t cbody) = Inl err)
       \<and> snd (createAppointment now newId db t cbody) = db"
    by (auto dest: createAppointment_error_frame)
qed

lemma update_conflict_rejected:
  "ub_start ubody = Some (Date s) \<and> ub_end ubody = Some (Date e)
   \<and> find (\<lambda>a. ap_id a = apptId \<and> ap_tenantId a = t) (appointments db) = Some appointment
   \<and> (staffConflict db t (ap_staffId appointment) (Some apptId) s e \<noteq> None
      \<or> clientConflict db t (ap_clientId appointment) (Some apptId) s e \<noteq> None)
   \<longrightarrow> (\<exists>err. fst (updateAppointment now db t user apptId ubody) = Inl err)
       \<and> snd (updateAppointment now db t user apptId ubody) = db"
proof
  assume h: "ub_start ubody = Some (Date s) \<and> ub_end ubody = Some (Date e)
   \<and> find (\<lambda>a. ap_id a = apptId \<and> ap_tenantId a = t) (appointments db) = Some appointment
   \<and> (staffConflict db t (ap_staffId appointment) (Some apptId) s e \<noteq> None
      \<or> clientConflict db t (ap_clientId appointment) (Some apptId) s e \<noteq> None)"
  have "\<exists>err. fst (updateAppointment now db t user apptId ubody) = Inl err"
  proof (cases "fst (updateAppointment now db t user apptId ubody)")
    case (Inl err)
    then show ?thesis by blast
  next
    case (Inr appt)
    then show ?thesis
    proof (rule updateAppointment_success)
      fix appointment' ns ne
      assume a: "find (\<lambda>a. ap_id a = apptId \<and> ap_tenantId a = t) (appointments db) = Some appointment'"
        "if ub_start ubody \<noteq> None \<or> ub_end ubody \<noteq> None
         then rescheduleChecks now db t apptId appointment' ubody = Inr (ns, ne)
         else ns = ap_start appointment' \<and> ne = ap_end appointment'"
      from a(1) h have eq: "appointment' = appointment" by simp
      from a(2) h eq have "rescheduleChecks now db t apptId appointment ubody = Inr (ns, ne)" by simp
      then show ?thesis
      proof (rule rescheduleChecks_success)
        assume "ub_start ubody = Some (Date ns)" "ub_end ubody = Some (Date ne)"
          "staffConflict db t (ap_staffId appointment) (Some apptId) ns ne = None"
          "clientConflict db t (ap_clientId appointment) (Some apptId) ns ne = None"
        with h show ?thesis by simp
      qed
    qed
  qed
  then show "(\<exists>err. fst (updateAppointment now db t user apptId ubody) = Inl err)
       \<and> snd (updateAppointment now db t user apptId ubody) = db"
    by (auto dest: updateAppointment_error_frame)
qed

text \<open>
  Claim C2 (conflict detection). The staff query and the client query find a row exactly
  when the table holds an appointment of the same tenant and the same staff member
  (respectively client), PENDING or CONFIRMED, other than the excluded one on a
  reschedule, with \<open>existing.start < candidate.end\<close> and \<open>existing.end > candidate.start\<close>.
  Appointments that end where the candidate starts, or start where it ends, are never
  found. A create or reschedule request for which either query finds a row is rejected
  and writes nothing.
\<close>

theorem conflict_detection:
  "(staffConflict db t staffId notId s e \<noteq> None \<longleftrightarrow>
     (\<exists>a\<in>set (appointments db). ap_tenantId a = t \<and> ap_staffId a = staffId
        \<and> (ap_status a = PENDING \<or> ap_status a = CONFIRMED)
        \<and> (\<forall>i. notId = Some i \<longrightarrow> ap_id a \<noteq> i)
        \<and> ap_start a < e \<and> ap_end a > s))
 \<and> (clientConflict db t clientId notId s e \<noteq> None \<longleftrightarrow>
     (\<exists>a\<in>set (appointments db). ap_tenantId a = t \<and> ap_clientId a = clientId
        \<and> (ap_status a = PENDING \<or> ap_status a = CONFIRMED)
        \<and> (\<forall>i. notId = Some i \<longrightarrow> ap_id a \<noteq> i)
        \<and> ap_start a < e \<and> ap_end a > s))
 \<and> ((\<forall>a\<in>set (appointments db). ap_end a \<le> s \<or> e \<le> ap_start a) \<longrightarrow>
     staffConflict db t staffId notId s e = None \<and> clientConflict db t clientId notId s e = None)
 \<and> (cb_staffId cbody = Some staffId \<and> cb_clientId cbody = Some clientId
   \<and> cb_start cbody = Some (Date s) \<and> cb_end cbody = Some (Date e)
   \<and> (staffConflict db t staffId None s e \<noteq> None \<or> clientConflict db t clientId None s e \<noteq> None)
   \<longrightarrow> (\<exists>err. fst (createAppointment now newId db t cbody) = Inl err)
       \<and> snd (createAppointment now newId db t cbody) = db)
 \<and> (ub_start ubody = Some (Date s) \<and> ub_end ubody = Some (Date e)
   \<and> find (\<lambda>a. ap_id a = apptId \<and> ap_tenantId a = t) (appointments db) = Some appointment
   \<and> (staffConflict db t (ap_staffId appointment) (Some apptId) s e \<noteq> None
      \<or> clientConflict db t (ap_clientId appointment) (Some apptId) s e \<noteq> None)
   \<longrightarrow> (\<exists>err. fst (updateAppointment now db t user apptId ubody) = Inl err)
       \<and> snd (updateAppointment now db t user apptId ubody) = db)"
  by (intro conjI staffConflict_iff clientConflict_iff touching_no_conflict
      create_conflict_rejected update_conflict_rejected)

theorem conflict_detection_witness:
  "staffConflict db1 ''tenantA'' ''S'' None 1794215700000 1794217500000 \<noteq> None
   \<and> clientConflict db1 ''tenantA'' ''C'' None 1794215700000 1794217500000 \<noteq> None
   \<and> createAppointment now0 ''a2'' db1 ''tenantA'' bodyOverlap = (Inl StaffAlreadyBooked, db1)
   \<and> staffConflict db1 ''tenantA'' ''S'' None 1794216600000 1794218400000 = None
   \<and> clientConflict db1 ''tenantA'' ''C'' None 1794216600000 1794218400000 = None
   \<and> \<not> isl (fst (createAppointment now0 ''a2'' db1 ''tenantA'' bodyTouch))
   \<and> staffConflict db1 ''tenantA'' ''S'' (Some ''a1'') 1794215700000 1794217500000 = None
   \<and> \<not> isl (fst (updateAppointment now0 db1 ''tenantA'' (Some staffUser) ''a1'' rescheduleSelf))"
proof -
  have in1: "appt0 \<in> set (appointments db1)" by (simp add: db1_def)
  have f: "ap_tenantId appt0 = ''tenantA''" "ap_staffId appt0 = ''S''" "ap_clientId appt0 = ''C''"
    "ap_status appt0 = PENDING" "ap_start appt0 = 1794214800000" "ap_end appt0 = 1794216600000"
    "ap_id appt0 = ''a1''"
    by (simp_all add: appt0_def)
  note th = conflict_detection [where db=db1 and t="''tenantA''" and staffId="''S''"
      and clientId="''C''" and now=now0 and newId="''a2''"]
  have ov: "\<exists>a\<in>set (appointments db1). ap_tenantId a = ''tenantA'' \<and> ap_staffId a = ''S''
        \<and> (ap_status a = PENDING \<or> ap_status a = CONFIRMED)
        \<and> (\<forall>i. None = Some i \<longrightarrow> ap_id a \<noteq> i)
        \<and> ap_start a < 1794217500000 \<and> ap_end a > 1794215700000"
    "\<exists>a\<in>set (appointments db1). ap_tenantId a = ''tenantA'' \<and> ap_clientId a = ''C''
        \<and> (ap_status a = PENDING \<or> ap_status a = CONFIRMED)
        \<and> (\<forall>i. None = Some i \<longrightarrow> ap_id a \<noteq> i)
        \<and> ap_start a < 1794217500000 \<and> ap_end a > 1794215700000"
    by (simp_all add: db1_def f)
  from th [where notId=None and s=1794215700000 and e=1794217500000] ov
  have w1: "staffConflict db1 ''tenantA'' ''S'' None 1794215700000 1794217500000 \<noteq> None"
    and w2: "clientConflict db1 ''tenantA'' ''C'' None 1794215700000 1794217500000 \<noteq> None"
    by blast+
  have b: "cb_staffId bodyOverlap = Some ''S''" "cb_clientId bodyOverlap = Some ''C''"
    "cb_start bodyOverlap = Some (Date 1794215700000)"
    "cb_end bodyOverlap = Some (Date 1794217500000)"
    by (simp_all add: bodyOverlap_def body0_def)
  from th [where notId=None and s=1794215700000 and e=1794217500000 and cbody=bodyOverlap] w1 b
  have w3: "snd (createAppointment now0 ''a2'' db1 ''tenantA'' bodyOverlap) = db1" by simp
  have w3': "fst (createAppointment now0 ''a2'' db1 ''tenantA'' bodyOverlap) = Inl StaffAlreadyBooked"
    by code_simp
  have touch: "\<forall>a\<in>set (appointments db1). ap_end a \<le> 1794216600000 \<or> 1794218400000 \<le> ap_start a"
    by (simp add: db1_def f)
  from th [where notId=None and s=1794216600000 and e=1794218400000] touch
  have w4: "staffConflict db1 ''tenantA'' ''S'' None 1794216600000 1794218400000 = None"
    and w5: "clientConflict db1 ''tenantA'' ''C'' None 1794216600000 1794218400000 = None"
    by blast+
  have w6: "\<not> isl (fst (createAppointment now0 ''a2'' db1 ''tenantA'' bodyTouch))"
    by code_simp
  have "\<not> (\<exists>a\<in>set (appointments db1). ap_tenantId a = ''tenantA'' \<and> ap_staffId a = ''S''
        \<and> (ap_status a = PENDING \<or> ap_status a = CONFIRMED)
        \<and> (\<forall>i. Some ''a1'' = Some i \<longrightarrow> ap_id a \<noteq> i)
        \<and> ap_start a < 1794217500000 \<and> ap_end a > 1794215700000)"
    by (simp add: db1_def f)
  with th [where notId="Some ''a1''" and s=1794215700000 and e=1794217500000]
  have w7: "staffConflict db1 ''tenantA'' ''S'' (Some ''a1'') 1794215700000 1794217500000 = None"
    by blast
  have w8: "\<not> isl (fst (updateAppointment now0 db1 ''tenantA'' (Some staffUser) ''a1'' rescheduleSelf))"
    by code_simp
  from w1 w2 w3 w3' w4 w5 w6 w7 w8 show ?thesis
    by (simp add: prod_eq_iff)
qed

subsection \<open>Time off\<close>

lemma validate_timeOff_iff:
  "(\<exists>r. validateStaffAvailabilityAndTimeOff db t staffId s e = Inl (StaffOnTimeOff r)) \<longleftrightarrow>
     (\<exists>tf\<in>set (timeOffs db). to_staffId tf = staffId \<and> to_tenantId tf = t
         \<and> to_start tf \<le> e \<and> to_end tf \<ge> s)"
proof -
  let ?tfs = "filter (\<lambda>x. to_staffId x = staffId \<and> to_tenantId x = t
                              \<and> to_start x \<le> e \<and> to_end x \<ge> s) (timeOffs db)"
  have "(\<exists>r. validateStaffAvailabilityAndTimeOff db t staffId s e = Inl (StaffOnTimeOff r))
          \<longleftrightarrow> ?tfs \<noteq> []"
    by (cases ?tfs) (simp_all add: validateStaffAvailabilityAndTimeOff_def Let_def)
  also have "?tfs \<noteq> [] \<longleftrightarrow> (\<exists>tf\<in>set (timeOffs db). to_staffId tf = staffId \<and> to_tenantId tf = t
         \<and> to_start tf \<le> e \<and> to_end tf \<ge> s)"
    by (auto simp: filter_empty_conv)
  finally show ?thesis .
qed

lemma validate_timeOff_first:
  "filter (\<lambda>x. to_staffId x = staffId \<and> to_tenantId x = t
                 \<and> to_start x \<le> e \<and> to_end x \<ge> s) (timeOffs db) = tf # rest \<longrightarrow>
   validateStaffAvailabilityAndTimeOff (db\<lparr> availabilities := avs \<rparr>) t staffId s e
     = Inl (StaffOnTimeOff (case to_reason tf of
                              None \<Rightarrow> ''Time off''
                            | Some r \<Rightarrow> if r = [] then ''Time off'' else r))"
  by (auto simp: validateStaffAvailabilityAndTimeOff_def falsy_str_def split: option.split)

lemma create_validate_error:
  "cb_serviceId cbody = Some serviceId \<and> serviceId \<noteq> []
   \<and> cb_staffId cbody = Some staffId \<and> staffId \<noteq> []
   \<and> cb_clientId cbody = Some clientId \<and> clientId \<noteq> []
   \<and> cb_start cbody = Some (Date s) \<and> cb_end cbody = Some (Date e) \<and> s < e \<and> now \<le> s
   \<and> find (\<lambda>sv. svc_id sv = serviceId \<and> svc_tenantId sv = t
                  \<and> svc_active sv \<and> svc_deletedAt sv = None) (services db) = Some service
   \<and> find (\<lambda>s. stf_id s = staffId \<and> stf_tenantId s = t
                  \<and> stf_deletedAt s = None) (staffs db) \<noteq> None
   \<and> find (\<lambda>u. usr_id u = clientId \<and> usr_deletedAt u = None) (users db) \<noteq> None
   \<and> find (\<lambda>x. ss_staffId x = staffId \<and> ss_serviceId x = serviceId) (staffServices db) \<noteq> None
   \<and> newDate (s + svc_duration service * 60000) = Date e
   \<and> validateStaffAvailabilityAndTimeOff db t staffId s e = Inl err
   \<longrightarrow> createAppointment now newId db t cbody = (Inl err, db)"
  by (auto simp: createAppointment_def falsy_str_def)

lemma update_validate_error:
  "requireTenantRole user [''OWNER'', ''ADMIN'', ''STAFF''] = Inr ()
   \<and> ub_start ubody = Some (Date s) \<and> ub_end ubody = Some (Date e) \<and> s < e \<and> now \<le> s
   \<and> find (\<lambda>a. ap_id a = apptId \<and> ap_tenantId a = t) (appointments db) = Some appointment
   \<and> find (\<lambda>sv. svc_id sv = ap_serviceId appointment) (services db) = Some service
   \<and> newDate (s + svc_duration service * 60000) = Date e
   \<and> validateStaffAvailabilityAndTimeOff db t (ap_staffId appointment) s e = Inl err
   \<longrightarrow> updateAppointment now db t user apptId ubody = (Inl err, db)"
  by (auto simp: updateAppointment_def rescheduleChecks_def)

text \<open>
  Claim C4 (blackout). The validation reports a time-off rejection exactly when some
  \<open>TimeOff\<close> row of the staff member in the tenant has \<open>start \<le> candidate.end\<close> and
  \<open>end \<ge> candidate.start\<close>. The rejection carries the reason of the first such row,
  or \<open>''Time off''\<close> when that row has no reason or an empty one, and it is the result
  whatever the availability table holds: the availability test is not reached. A create
  or reschedule request that reaches the validation is rejected with that error and
  writes nothing.
\<close>

theorem blackout_check:
  "((\<exists>r. validateStaffAvailabilityAndTimeOff db t staffId s e = Inl (StaffOnTimeOff r)) \<longleftrightarrow>
     (\<exists>tf\<in>set (timeOffs db). to_staffId tf = staffId \<and> to_tenantId tf = t
         \<and> to_start tf \<le> e \<and> to_end tf \<ge> s))
 \<and> (filter (\<lambda>x. to_staffId x = staffId \<and> to_tenantId x = t
                 \<and> to_start x \<le> e \<and> to_end x \<ge> s) (timeOffs db) = tf # rest \<longrightarrow>
   validateStaffAvailabilityAndTimeOff (db\<lparr> availabilities := avs \<rparr>) t staffId s e
     = Inl (StaffOnTimeOff (case to_reason tf of
                              None \<Rightarrow> ''Time off''
                            | Some r \<Rightarrow> if r = [] then ''Time off'' else r)))
 \<and> (cb_serviceId cbody = Some serviceId \<and> serviceId \<noteq> []
   \<and> cb_staffId cbody = Some staffId \<and> staffId \<noteq> []
   \<and> cb_clientId cbody = Some clientId \<and> clientId \<noteq> []
   \<and> cb_start cbody = Some (Date s) \<and> cb_end cbody = Some (Date e) \<and> s < e \<and> now \<le> s
   \<and> find (\<lambda>sv. svc_id sv = serviceId \<and> svc_tenantId sv = t
                  \<and> svc_active sv \<and> svc_deletedAt sv = None) (services db) = Some service
   \<and> find (\<lambda>s. stf_id s = staffId \<and> stf_tenantId s = t
                  \<and> stf_deletedAt s = None) (staffs db) \<noteq> None
   \<and> find (\<lambda>u. usr_id u = clientId \<and> usr_deletedAt u = None) (users db) \<noteq> None
   \<and> find (\<lambda>x. ss_staffId x = staffId \<and> ss_serviceId x = serviceId) (staffServices db) \<noteq> None
   \<and> newDate (s + svc_duration service * 60000) = Date e
   \<and> validateStaffAvailabilityAndTimeOff db t staffId s e = Inl (StaffOnTimeOff reason)
   \<longrightarrow> createAppointment now newId db t cbody = (Inl (StaffOnTimeOff reason), db))
 \<and> (requireTenantRole user [''OWNER'', ''ADMIN'', ''STAFF''] = Inr ()
   \<and> ub_start ubody = Some (Date s) \<and> ub_end ubody = Some (Date e) \<and> s < e \<and> now \<le> s
   \<and> find (\<lambda>a. ap_id a = apptId \<and> ap_tenantId a = t) (appointments db) = Some appointment
   \<and> find (\<lambda>sv. svc_id sv = ap_serviceId appointment) (services db) = Some serviceU
   \<and> newDate (s + svc_duration serviceU * 60000) = Date e
   \<and> validateStaffAvailabilityAndTimeOff db t (ap_staffId appointment) s e
       = Inl (StaffOnTimeOff reasonU)
   \<longrightarrow> updateAppointment now db t user apptId ubody = (Inl (StaffOnTimeOff reasonU), db))"
  by (intro conjI validate_timeOff_iff validate_timeOff_first create_validate_error
      update_validate_error)

theorem blackout_check_witness:
  "validateStaffAvailabilityAndTimeOff dbOff ''tenantA'' ''S'' 1794214800000 1794216600000
     = Inl (StaffOnTimeOff ''Vacation'')
   \<and> validateStaffAvailabilityAndTimeOff (dbOff\<lparr> availabilities := [] \<rparr>) ''tenantA'' ''S''
       1794214800000 1794216600000 = Inl (StaffOnTimeOff ''Vacation'')
   \<and> isWithinRecurringAvailability mondayWindow 1794214800000 1794216600000
   \<and> createAppointment now0 ''a1'' dbOff ''tenantA'' body0 = (Inl (StaffOnTimeOff ''Vacation''), dbOff)"
proof -
  have flt: "filter (\<lambda>x. to_staffId x = ''S'' \<and> to_tenantId x = ''tenantA''
                 \<and> to_start x \<le> 1794216600000 \<and> to_end x \<ge> 1794214800000) (timeOffs dbOff)
             = vacation # []"
    by (simp add: dbOff_def vacation_def)
  have r: "to_reason vacation = Some ''Vacation''" by (simp add: vacation_def)
  have avs: "dbOff\<lparr> availabilities := [mondayWindow] \<rparr> = dbOff"
    by (simp add: dbOff_def db0_def)
  note th = blackout_check [where db=dbOff and t="''tenantA''" and staffId="''S''"
      and s=1794214800000 and e=1794216600000 and tf=vacation and rest="[]"]
  from th [where avs="[mondayWindow]"] flt r avs
  have w1: "validateStaffAvailabilityAndTimeOff dbOff ''tenantA'' ''S'' 1794214800000 1794216600000
     = Inl (StaffOnTimeOff ''Vacation'')" by simp
  from th [where avs="[]"] flt r
  have w2: "validateStaffAvailabilityAndTimeOff (dbOff\<lparr> availabilities := [] \<rparr>) ''tenantA'' ''S''
       1794214800000 1794216600000 = Inl (StaffOnTimeOff ''Vacation'')" by simp
  have w3: "isWithinRecurringAvailability mondayWindow 1794214800000 1794216600000"
    by code_simp
  have pre: "cb_serviceId body0 = Some ''svc1'' \<and> ''svc1'' \<noteq> []
   \<and> cb_staffId body0 = Some ''S'' \<and> ''S'' \<noteq> []
   \<and> cb_clientId body0 = Some ''C'' \<and> ''C'' \<noteq> []
   \<and> cb_start body0 = Some (Date 1794214800000) \<and> cb_end body0 = Some (Date 1794216600000)
   \<and> (1794214800000 :: int) < 1794216600000 \<and> now0 \<le> 1794214800000
   \<and> find (\<lambda>sv. svc_id sv = ''svc1'' \<and> svc_tenantId sv = ''tenantA''
                  \<and> svc_active sv \<and> svc_deletedAt sv = None) (services dbOff) = Some service30
   \<and> find (\<lambda>s. stf_id s = ''S'' \<and> stf_tenantId s = ''tenantA''
                  \<and> stf_deletedAt s = None) (staffs dbOff) \<noteq> None
   \<and> find (\<lambda>u. usr_id u = ''C'' \<and> usr_deletedAt u = None) (users dbOff) \<noteq> None
   \<and> find (\<lambda>x. ss_staffId x = ''S'' \<and> ss_serviceId x = ''svc1'') (staffServices dbOff) \<noteq> None
   \<and> newDate (1794214800000 + svc_duration service30 * 60000) = Date 1794216600000"
    by code_simp
  from th [where cbody=body0 and serviceId="''svc1''" and clientId="''C''" and now=now0
      and service=service30 and reason="''Vacation''" and newId="''a1''"] pre w1
  have w4: "createAppointment now0 ''a1'' dbOff ''tenantA'' body0
              = (Inl (StaffOnTimeOff ''Vacation''), dbOff)" by simp
  from w1 w2 w3 w4 show ?thesis by simp
qed

subsection \<open>Recurring availability: where the code agrees with the specification\<close>

lemma is_digit_plain:
  "is_digit c \<Longrightarrow> c \<noteq> CHR '':'' \<and> \<not> is_ws c \<and> c \<noteq> CHR ''-'' \<and> c \<noteq> CHR ''+''"
  by (auto simp: is_digit_def is_ws_def)

lemma Number_js_two_digits:
  assumes "is_digit c" "is_digit d"
  shows "Number_js [c, d] = Num (digit_val c * 10 + digit_val d)"
  using assms is_digit_plain [OF assms(1)] is_digit_plain [OF assms(2)]
  by (simp add: Number_js_def trim_def unsigned_Number_def digits_val_def)

lemma split_colon_hhmm:
  assumes "is_digit h1" "is_digit h2" "is_digit m1" "is_digit m2"
  shows "split_colon [h1, h2, CHR '':'', m1, m2] = [[h1, h2], [m1, m2]]"
  using assms [THEN is_digit_plain] by simp

lemma hhmmToMinutes_wellformed:
  assumes "spec_parse_hhmm st = Some a"
  shows "hhmmToMinutes (Some st) = Some (Num a)"
proof -
  from assms obtain h1 h2 m1 m2 where st: "st = [h1, h2, CHR '':'', m1, m2]"
    and d: "is_digit h1" "is_digit h2" "is_digit m1" "is_digit m2"
    and a: "a = (digit_val h1 * 10 + digit_val h2) * 60 + (digit_val m1 * 10 + digit_val m2)"
    by (auto simp: spec_parse_hhmm_def split: list.splits if_splits)
  from st have sc: "split_colon st = [[h1, h2], [m1, m2]]"
    by (simp only: split_colon_hhmm [OF d])
  from st have ne: "st \<noteq> []" by simp
  show ?thesis
    unfolding hhmmToMinutes_def
    by (simp add: sc ne Number_js_two_digits d a)
qed

lemma minutes_mod_day: "getUTCHours t * 60 + getUTCMinutes t = (t div 60000) mod 1440"
proof -
  have h: "t div 3600000 = (t div 60000) div 60"
    by (simp add: zdiv_zmult2_eq [symmetric])
  have "(t div 60000) mod (60 * 24) = 60 * ((t div 60000) div 60 mod 24) + (t div 60000) mod 60"
    by (rule zmod_zmult2_eq) simp
  then show ?thesis by (simp add: getUTCHours_def getUTCMinutes_def h)
qed

lemma minutes_same_day:
  assumes "s div 86400000 = e div 86400000" "s \<le> e"
  shows "minutesSinceMidnight s \<le> minutesSinceMidnight e"
proof -
  have d: "t div 86400000 = (t div 60000) div 1440" for t :: int
    by (simp add: zdiv_zmult2_eq [symmetric])
  from assms(2) have le: "s div 60000 \<le> e div 60000" by (rule zdiv_mono1) simp
  from assms(1) have q: "(s div 60000) div 1440 = (e div 60000) div 1440" by (simp add: d)
  have "(s div 60000) mod 1440 \<le> (e div 60000) mod 1440"
    using le q div_mult_mod_eq [of "s div 60000" 1440] div_mult_mod_eq [of "e div 60000" 1440]
    by linarith
  then show ?thesis by (simp add: minutesSinceMidnight_def minutes_mod_day)
qed

lemma recurring_agrees_with_spec:
  assumes "av_dayOfWeek av \<noteq> Some 0"
    and "av_startTime av = Some st" "spec_parse_hhmm st = Some a"
    and "av_endTime av = Some et" "spec_parse_hhmm et = Some b"
    and "s div 86400000 = e div 86400000" "s \<le> e"
  shows "isWithinRecurringAvailability av s e \<longleftrightarrow> spec_recurring_match av s e"
proof (cases "av_dayOfWeek av")
  case None
  then show ?thesis
    by (simp add: isWithinRecurringAvailability_def spec_recurring_match_def falsy_num_def)
next
  case (Some d)
  from assms(3,5) have ne: "st \<noteq> []" "et \<noteq> []"
    by (auto simp: spec_parse_hhmm_def)
  from minutes_same_day [OF assms(6,7)]
  have m: "minutesSinceMidnight s \<le> minutesSinceMidnight e" .
  from Some assms(1) have "d \<noteq> 0" by simp
  with Some assms(2-5) ne m show ?thesis
    by (auto simp: isWithinRecurringAvailability_def spec_recurring_match_def falsy_num_def
        falsy_str_def hhmmToMinutes_wellformed minutesSinceMidnight_def Let_def)
qed

lemma day0_record_never_matches:
  "av_dayOfWeek av = Some 0 \<Longrightarrow> \<not> isWithinRecurringAvailability av s e"
  by (simp add: isWithinRecurringAvailability_def falsy_num_def)

lemma unparsed_time_never_matches:
  "hhmmToMinutes (av_startTime av) \<in> {None, Some NaN} \<or> hhmmToMinutes (av_endTime av) \<in> {None, Some NaN}
   \<Longrightarrow> \<not> isWithinRecurringAvailability av s e"
  by (auto simp: isWithinRecurringAvailability_def Let_def split: option.splits)

subsection \<open>The availability test\<close>

lemma validate_no_timeOff:
  assumes "\<not> (\<exists>tf\<in>set (timeOffs db). to_staffId tf = staffId \<and> to_tenantId tf = t
                 \<and> to_start tf \<le> e \<and> to_end tf \<ge> s)"
  shows "validateStaffAvailabilityAndTimeOff db t staffId s e =
     (let avs = filter (\<lambda>av. av_staffId av = staffId \<and> av_tenantId av = t
                              \<and> av_deletedAt av = None) (availabilities db)
      in if avs = [] \<or> list_ex (\<lambda>av. case av_type av of
                                       ONE_OFF \<Rightarrow> isWithinOneOffAvailability av s e
                                     | RECURRING \<Rightarrow> isWithinRecurringAvailability av s e) avs
         then Inr () else Inl OutsideStaffAvailability)"
proof -
  from assms have "filter (\<lambda>x. to_staffId x = staffId \<and> to_tenantId x = t
                 \<and> to_start x \<le> e \<and> to_end x \<ge> s) (timeOffs db) = []"
    by (auto simp: filter_empty_conv)
  then show ?thesis
    by (simp add: validateStaffAvailabilityAndTimeOff_def Let_def)
qed

lemma one_off_contains:
  "isWithinOneOffAvailability av s e \<longleftrightarrow>
     (\<exists>a b. av_startDate av = Some a \<and> av_endDate av = Some b \<and> a \<le> s \<and> e \<le> b)"
  by (auto simp: isWithinOneOffAvailability_def split: option.splits)

lemma availability_agrees_with_spec:
  assumes "\<not> (\<exists>tf\<in>set (timeOffs db). to_staffId tf = staffId \<and> to_tenantId tf = t
                 \<and> to_start tf \<le> e \<and> to_end tf \<ge> s)"
    and "\<forall>av\<in>set (availabilities db). av_type av = RECURRING \<longrightarrow>
            (isWithinRecurringAvailability av s e \<longleftrightarrow> spec_recurring_match av s e)"
  shows "validateStaffAvailabilityAndTimeOff db t staffId s e = Inr () \<longleftrightarrow>
           spec_availability_permits
             (filter (\<lambda>av. av_staffId av = staffId \<and> av_tenantId av = t \<and> av_deletedAt av = None)
                     (availabilities db)) s e"
proof -
  let ?avs = "filter (\<lambda>av. av_staffId av = staffId \<and> av_tenantId av = t \<and> av_deletedAt av = None)
                     (availabilities db)"
  have "(case av_type av of
           ONE_OFF \<Rightarrow> isWithinOneOffAvailability av s e
         | RECURRING \<Rightarrow> isWithinRecurringAvailability av s e) = spec_contains av s e"
    if "av \<in> set ?avs" for av
    using that assms(2)
    by (cases "av_type av")
       (auto simp: spec_contains_def isWithinOneOffAvailability_def split: option.splits)
  then have "list_ex (\<lambda>av. case av_type av of
                             ONE_OFF \<Rightarrow> isWithinOneOffAvailability av s e
                           | RECURRING \<Rightarrow> isWithinRecurringAvailability av s e) ?avs
             = list_ex (\<lambda>av. spec_contains av s e) ?avs"
    unfolding list_ex_iff by blast
  then show ?thesis
    by (simp add: validate_no_timeOff [OF assms(1)] spec_availability_permits_def Let_def)
qed

text \<open>
  Claim C3 (availability containment) fails on a Sunday window. The staff member's only
  record is recurring, for day 0 (Sunday), 09:00--17:00, and the candidate is Sunday
  10:00--10:30 UTC with no time off: the record contains the interval, so the
  specification permits it, while the validation answers "outside availability" and
  the booking is rejected. \<open>availability_agrees_with_spec\<close> shows that the claim holds
  wherever the recurring test agrees with the specification.
\<close>

theorem sunday_window_rejected:
  "spec_availability_permits
     (filter (\<lambda>av. av_staffId av = ''S'' \<and> av_tenantId av = ''tenantA'' \<and> av_deletedAt av = None)
             (availabilities dbSunday)) 1794132000000 1794133800000
   \<and> timeOffs dbSunday = []
   \<and> validateStaffAvailabilityAndTimeOff dbSunday ''tenantA'' ''S'' 1794132000000 1794133800000
       = Inl OutsideStaffAvailability
   \<and> createAppointment now0 ''a1'' dbSunday ''tenantA'' bodySunday
       = (Inl OutsideStaffAvailability, dbSunday)"
  by code_simp

text \<open>
  Claim C5 (recurring match) fails for a record of day 0. The record is for Sunday,
  09:00--17:00; the candidate starts on a Sunday (\<open>getUTCDay\<close> is 0) and both its
  endpoints, 600 and 630 minutes after midnight, lie within [540, 1020]. The
  specification's rule matches; \<open>isWithinRecurringAvailability\<close> does not, because its
  first line takes the day 0 for a missing field.
\<close>

theorem sunday_record_never_matches:
  "av_dayOfWeek sundayWindow = Some 0
   \<and> getUTCDay 1794132000000 = 0
   \<and> hhmmToMinutes (av_startTime sundayWindow) = Some (Num 540)
   \<and> hhmmToMinutes (av_endTime sundayWindow) = Some (Num 1020)
   \<and> minutesSinceMidnight 1794132000000 = 600
   \<and> minutesSinceMidnight 1794133800000 = 630
   \<and> spec_recurring_match sundayWindow 1794132000000 1794133800000
   \<and> \<not> isWithinRecurringAvailability sundayWindow 1794132000000 1794133800000"
  by code_simp

text \<open>
  Claim C6 (no recurring match across midnight) fails. The record is for Monday,
  09:00--23:30; the candidate runs from Monday 23:00 to Tuesday 00:30 UTC, so its end
  is on the next UTC day. The end's minutes since midnight, 30, are below the window's
  end, which is all the code asks of the end: the record matches and the booking of the
  90-minute service is accepted.
\<close>

theorem cross_midnight_accepted:
  "(1794265200000 :: int) div 86400000 < 1794270600000 div 86400000
   \<and> minutesSinceMidnight 1794265200000 = 1380
   \<and> minutesSinceMidnight 1794270600000 = 30
   \<and> \<not> spec_recurring_match lateWindow 1794265200000 1794270600000
   \<and> isWithinRecurringAvailability lateWindow 1794265200000 1794270600000
   \<and> fst (createAppointment now0 ''a1'' dbLate ''tenantA'' bodyLate)
       = Inr (newAppointment now0 ''a1'' ''tenantA'' ''svc2'' ''S'' ''C''
                1794265200000 1794270600000 service90 None)"
  by code_simp

subsection \<open>Cancellation\<close>

lemma cancel_no_match:
  "(\<forall>a\<in>set (appointments db). ap_id a = apptId \<and> ap_tenantId a = t \<longrightarrow> ap_status a = CANCELLED)
   \<longrightarrow> cancelAppointment now db t apptId = (Inl NotFoundOrAlreadyCancelled, db)"
proof
  assume h: "\<forall>a\<in>set (appointments db). ap_id a = apptId \<and> ap_tenantId a = t \<longrightarrow> ap_status a = CANCELLED"
  then have f: "filter (\<lambda>a. ap_id a = apptId \<and> ap_tenantId a = t \<and> ap_status a \<noteq> CANCELLED)
                  (appointments db) = []"
    by (auto simp: filter_empty_conv)
  from h have m: "map (\<lambda>a. if ap_id a = apptId \<and> ap_tenantId a = t \<and> ap_status a \<noteq> CANCELLED
                           then a\<lparr> ap_status := CANCELLED, ap_canceledAt := Some now \<rparr> else a)
                     (appointments db) = appointments db"
    by (intro map_idI) auto
  show "cancelAppointment now db t apptId = (Inl NotFoundOrAlreadyCancelled, db)"
    by (simp add: cancelAppointment_def Let_def f m)
qed

lemma cancel_match:
  "(\<exists>a\<in>set (appointments db). ap_id a = apptId \<and> ap_tenantId a = t \<and> ap_status a \<noteq> CANCELLED)
   \<longrightarrow> cancelAppointment now db t apptId =
         (Inr apptId,
          db\<lparr> appointments :=
                map (\<lambda>a. if ap_id a = apptId \<and> ap_tenantId a = t \<and> ap_status a \<noteq> CANCELLED
                         then a\<lparr> ap_status := CANCELLED, ap_canceledAt := Some now \<rparr> else a)
                    (appointments db) \<rparr>)"
proof
  assume "\<exists>a\<in>set (appointments db). ap_id a = apptId \<and> ap_tenantId a = t \<and> ap_status a \<noteq> CANCELLED"
  then have "filter (\<lambda>a. ap_id a = apptId \<and> ap_tenantId a = t \<and> ap_status a \<noteq> CANCELLED)
                  (appointments db) \<noteq> []"
    by (auto simp: filter_empty_conv)
  then show "cancelAppointment now db t apptId =
         (Inr apptId,
          db\<lparr> appointments :=
                map (\<lambda>a. if ap_id a = apptId \<and> ap_tenantId a = t \<and> ap_status a \<noteq> CANCELLED
                         then a\<lparr> ap_status := CANCELLED, ap_canceledAt := Some now \<rparr> else a)
                    (appointments db) \<rparr>)"
    by (simp add: cancelAppointment_def Let_def)
qed

lemma cancel_snd:
  "snd (cancelAppointment now db t apptId) =
     db\<lparr> appointments :=
          map (\<lambda>a. if ap_id a = apptId \<and> ap_tenantId a = t \<and> ap_status a \<noteq> CANCELLED
                   then a\<lparr> ap_status := CANCELLED, ap_canceledAt := Some now \<rparr> else a)
              (appointments db) \<rparr>"
  by (simp add: cancelAppointment_def Let_def)

lemma cancel_all_cancelled:
  "\<forall>a\<in>set (appointments (snd (cancelAppointment now db t apptId))).
      ap_id a = apptId \<and> ap_tenantId a = t \<longrightarrow> ap_status a = CANCELLED"
proof (intro ballI impI)
  fix a
  let ?f = "\<lambda>a. if ap_id a = apptId \<and> ap_tenantId a = t \<and> ap_status a \<noteq> CANCELLED
                 then a\<lparr> ap_status := CANCELLED, ap_canceledAt := Some now \<rparr> else a"
  assume m: "a \<in> set (appointments (snd (cancelAppointment now db t apptId)))"
    and h: "ap_id a = apptId \<and> ap_tenantId a = t"
  have "appointments (snd (cancelAppointment now db t apptId)) = map ?f (appointments db)"
    by (simp add: cancel_snd)
  with m have "a \<in> ?f ` set (appointments db)" by (simp only: set_map)
  then obtain b where b: "a = ?f b" by (rule imageE)
  show "ap_status a = CANCELLED"
  proof (cases "ap_id b = apptId \<and> ap_tenantId b = t \<and> ap_status b \<noteq> CANCELLED")
    case True
    with b show ?thesis by simp
  next
    case False
    with b have "a = b" by simp
    with False h show ?thesis by simp
  qed
qed

lemma cancel_twice:
  "cancelAppointment now' (snd (cancelAppointment now db t apptId)) t apptId
     = (Inl NotFoundOrAlreadyCancelled, snd (cancelAppointment now db t apptId))"
  by (rule cancel_no_match [rule_format]) (rule cancel_all_cancelled [rule_format])

text \<open>
  Claim C7 (cancellation). When no row has the identifier and the caller's tenant with a
  status other than CANCELLED (the appointment is missing, belongs to another tenant, or
  is cancelled already), \<open>cancelAppointment\<close> fails with the not-found-or-already-cancelled
  error and leaves the database as it was. Otherwise it succeeds, sets the status of
  the matching rows to CANCELLED and their \<open>canceledAt\<close> to the clock reading, and leaves
  every other row alone; a second cancellation, at any later time, then fails and
  changes nothing, so the stamp of the first one stays.
\<close>

theorem cancel_appointment:
  "((\<forall>a\<in>set (appointments db). ap_id a = apptId \<and> ap_tenantId a = t \<longrightarrow> ap_status a = CANCELLED)
     \<longrightarrow> cancelAppointment now db t apptId = (Inl NotFoundOrAlreadyCancelled, db))
 \<and> ((\<exists>a\<in>set (appointments db). ap_id a = apptId \<and> ap_tenantId a = t \<and> ap_status a \<noteq> CANCELLED)
     \<longrightarrow> cancelAppointment now db t apptId =
         (Inr apptId,
          db\<lparr> appointments :=
                map (\<lambda>a. if ap_id a = apptId \<and> ap_tenantId a = t \<and> ap_status a \<noteq> CANCELLED
                         then a\<lparr> ap_status := CANCELLED, ap_canceledAt := Some now \<rparr> else a)
                    (appointments db) \<rparr>))
 \<and> cancelAppointment now' (snd (cancelAppointment now db t apptId)) t apptId
     = (Inl NotFoundOrAlreadyCancelled, snd (cancelAppointment now db t apptId))"
  by (intro conjI cancel_no_match cancel_match cancel_twice)

theorem cancel_appointment_witness:
  "cancelAppointment now0 db1 ''tenantA'' ''a1''
     = (Inr ''a1'', db1\<lparr> appointments := [appt0\<lparr> ap_status := CANCELLED,
                                                 ap_canceledAt := Some now0 \<rparr>] \<rparr>)
   \<and> cancelAppointment (now0 + 1) (snd (cancelAppointment now0 db1 ''tenantA'' ''a1'')) ''tenantA'' ''a1''
     = (Inl NotFoundOrAlreadyCancelled,
        db1\<lparr> appointments := [appt0\<lparr> ap_status := CANCELLED, ap_canceledAt := Some now0 \<rparr>] \<rparr>)
   \<and> cancelAppointment now0 db1 ''tenantB'' ''a1'' = (Inl NotFoundOrAlreadyCancelled, db1)
   \<and> cancelAppointment now0 db1 ''tenantA'' ''missing'' = (Inl NotFoundOrAlreadyCancelled, db1)"
proof -
  have f: "ap_id appt0 = ''a1''" "ap_tenantId appt0 = ''tenantA''" "ap_status appt0 = PENDING"
    by (simp_all add: appt0_def)
  have a: "appointments db1 = [appt0]" by (simp add: db1_def)
  have ex: "\<exists>a\<in>set (appointments db1). ap_id a = ''a1'' \<and> ap_tenantId a = ''tenantA''
              \<and> ap_status a \<noteq> CANCELLED"
    by (simp add: a f)
  note th = cancel_appointment [where db=db1 and now=now0]
  from th [where t="''tenantA''" and apptId="''a1''"] ex
  have w1: "cancelAppointment now0 db1 ''tenantA'' ''a1''
     = (Inr ''a1'', db1\<lparr> appointments := [appt0\<lparr> ap_status := CANCELLED,
                                                 ap_canceledAt := Some now0 \<rparr>] \<rparr>)"
    by (simp add: a f)
  from w1 have s1: "snd (cancelAppointment now0 db1 ''tenantA'' ''a1'')
      = db1\<lparr> appointments := [appt0\<lparr> ap_status := CANCELLED, ap_canceledAt := Some now0 \<rparr>] \<rparr>"
    by simp
  from th [where t="''tenantA''" and apptId="''a1''" and now'="now0 + 1"]
  have "cancelAppointment (now0 + 1) (snd (cancelAppointment now0 db1 ''tenantA'' ''a1''))
               ''tenantA'' ''a1''
     = (Inl NotFoundOrAlreadyCancelled, snd (cancelAppointment now0 db1 ''tenantA'' ''a1''))"
    by (elim conjE)
  then have w2: "cancelAppointment (now0 + 1) (snd (cancelAppointment now0 db1 ''tenantA'' ''a1''))
               ''tenantA'' ''a1''
     = (Inl NotFoundOrAlreadyCancelled,
        db1\<lparr> appointments := [appt0\<lparr> ap_status := CANCELLED, ap_canceledAt := Some now0 \<rparr>] \<rparr>)"
    by (simp only: s1)
  have n3: "\<forall>a\<in>set (appointments db1). ap_id a = ''a1'' \<and> ap_tenantId a = ''tenantB''
              \<longrightarrow> ap_status a = CANCELLED"
    by (simp add: a f)
  from th [where t="''tenantB''" and apptId="''a1''"] n3
  have w3: "cancelAppointment now0 db1 ''tenantB'' ''a1'' = (Inl NotFoundOrAlreadyCancelled, db1)"
    by blast
  have n4: "\<forall>a\<in>set (appointments db1). ap_id a = ''missing'' \<and> ap_tenantId a = ''tenantA''
              \<longrightarrow> ap_status a = CANCELLED"
    by (simp add: a f)
  from th [where t="''tenantA''" and apptId="''missing''"] n4
  have w4: "cancelAppointment now0 db1 ''tenantA'' ''missing'' = (Inl NotFoundOrAlreadyCancelled, db1)"
    by blast
  from w1 w2 w3 w4 show ?thesis by simp
qed

subsection \<open>Updates without an interval\<close>

lemma update_status_only:
  "ub_start ubody = None \<and> ub_end ubody = None
   \<and> requireTenantRole user [''OWNER'', ''ADMIN'', ''STAFF''] = Inr ()
   \<and> find (\<lambda>a. ap_id a = apptId \<and> ap_tenantId a = t) (appointments db) = Some appointment
   \<longrightarrow> (\<exists>row. find (\<lambda>a. ap_id a = apptId) (appointments db) = Some row
         \<and> updateAppointment now db t user apptId ubody =
             (Inr (row\<lparr> ap_status := (case ub_status ubody of None \<Rightarrow> ap_status row | Some st \<Rightarrow> st),
                        ap_notes := (case ub_notes ubody of None \<Rightarrow> ap_notes row | Some n \<Rightarrow> Some n),
                        ap_updatedAt := now \<rparr>),
              db\<lparr> appointments :=
                    map (\<lambda>a. if ap_id a = apptId
                             then a\<lparr> ap_status := (case ub_status ubody of
                                                      None \<Rightarrow> ap_status a | Some st \<Rightarrow> st),
                                     ap_notes := (case ub_notes ubody of
                                                      None \<Rightarrow> ap_notes a | Some n \<Rightarrow> Some n),
                                     ap_updatedAt := now \<rparr>
                             else a)
                        (appointments db) \<rparr>))"
proof
  assume h: "ub_start ubody = None \<and> ub_end ubody = None
   \<and> requireTenantRole user [''OWNER'', ''ADMIN'', ''STAFF''] = Inr ()
   \<and> find (\<lambda>a. ap_id a = apptId \<and> ap_tenantId a = t) (appointments db) = Some appointment"
  then have "appointment \<in> set (appointments db)" "ap_id appointment = apptId"
    by (auto simp: find_Some_iff)
  then have "find (\<lambda>a. ap_id a = apptId) (appointments db) \<noteq> None"
    by (auto simp: find_None_iff)
  then obtain row where r: "find (\<lambda>a. ap_id a = apptId) (appointments db) = Some row" by blast
  have u: "updateData now ubody ns ne a =
             a\<lparr> ap_status := (case ub_status ubody of None \<Rightarrow> ap_status a | Some st \<Rightarrow> st),
                ap_notes := (case ub_notes ubody of None \<Rightarrow> ap_notes a | Some n \<Rightarrow> Some n),
                ap_updatedAt := now \<rparr>" for ns ne a
    using h by (simp add: updateData_def)
  from h r show "\<exists>row. find (\<lambda>a. ap_id a = apptId) (appointments db) = Some row
         \<and> updateAppointment now db t user apptId ubody =
             (Inr (row\<lparr> ap_status := (case ub_status ubody of None \<Rightarrow> ap_status row | Some st \<Rightarrow> st),
                        ap_notes := (case ub_notes ubody of None \<Rightarrow> ap_notes row | Some n \<Rightarrow> Some n),
                        ap_updatedAt := now \<rparr>),
              db\<lparr> appointments :=
                    map (\<lambda>a. if ap_id a = apptId
                             then a\<lparr> ap_status := (case ub_status ubody of
                                                      None \<Rightarrow> ap_status a | Some st \<Rightarrow> st),
                                     ap_notes := (case ub_notes ubody of
                                                      None \<Rightarrow> ap_notes a | Some n \<Rightarrow> Some n),
                                     ap_updatedAt := now \<rparr>
                             else a)
                        (appointments db) \<rparr>)"
    by (simp add: updateAppointment_def u)
qed

lemma update_status_only_interval:
  "ub_start ubody = None \<and> ub_end ubody = None \<longrightarrow>
     map ap_start (appointments (snd (updateAppointment now db t user apptId ubody)))
       = map ap_start (appointments db)
   \<and> map ap_end (appointments (snd (updateAppointment now db t user apptId ubody)))
       = map ap_end (appointments db)"
proof
  assume h: "ub_start ubody = None \<and> ub_end ubody = None"
  show "map ap_start (appointments (snd (updateAppointment now db t user apptId ubody)))
       = map ap_start (appointments db)
   \<and> map ap_end (appointments (snd (updateAppointment now db t user apptId ubody)))
       = map ap_end (appointments db)"
  proof (cases "fst (updateAppointment now db t user apptId ubody)")
    case (Inl err)
    then show ?thesis by (simp add: updateAppointment_error_frame)
  next
    case (Inr appt)
    then show ?thesis
    proof (rule updateAppointment_success)
      fix ns ne
      assume "snd (updateAppointment now db t user apptId ubody) =
         db\<lparr> appointments :=
               map (\<lambda>a. if ap_id a = apptId then updateData now ubody ns ne a else a)
                   (appointments db) \<rparr>"
      with h show ?thesis by (simp add: updateData_def comp_def if_distrib cong: if_cong)
    qed
  qed
qed

text \<open>
  Claim C9 (updates without an interval). When the body has neither \<open>start\<close> nor \<open>end\<close>,
  an authorised update of an appointment found in the tenant always succeeds: the
  outcome is given in closed form, with no condition on services, availability, time
  off or other appointments, so none of those checks decides anything. The supplied
  status, whatever the current one, and the supplied notes are written with the update
  stamp; the start and end of every row are as before.
\<close>

theorem status_only_update:
  "(ub_start ubody = None \<and> ub_end ubody = None
   \<and> requireTenantRole user [''OWNER'', ''ADMIN'', ''STAFF''] = Inr ()
   \<and> find (\<lambda>a. ap_id a = apptId \<and> ap_tenantId a = t) (appointments db) = Some appointment
   \<longrightarrow> (\<exists>row. find (\<lambda>a. ap_id a = apptId) (appointments db) = Some row
         \<and> updateAppointment now db t user apptId ubody =
             (Inr (row\<lparr> ap_status := (case ub_status ubody of None \<Rightarrow> ap_status row | Some st \<Rightarrow> st),
                        ap_notes := (case ub_notes ubody of None \<Rightarrow> ap_notes row | Some n \<Rightarrow> Some n),
                        ap_updatedAt := now \<rparr>),
              db\<lparr> appointments :=
                    map (\<lambda>a. if ap_id a = apptId
                             then a\<lparr> ap_status := (case ub_status ubody of
                                                      None \<Rightarrow> ap_status a | Some st \<Rightarrow> st),
                                     ap_notes := (case ub_notes ubody of
                                                      None \<Rightarrow> ap_notes a | Some n \<Rightarrow> Some n),
                                     ap_updatedAt := now \<rparr>
                             else a)
                        (appointments db) \<rparr>)))
 \<and> (ub_start ubody = None \<and> ub_end ubody = None \<longrightarrow>
     map ap_start (appointments (snd (updateAppointment now db t user apptId ubody)))
       = map ap_start (appointments db)
   \<and> map ap_end (appointments (snd (updateAppointment now db t user apptId ubody)))
       = map ap_end (appointments db))"
  by (intro conjI update_status_only update_status_only_interval)

theorem status_only_update_witness:
  "fst (updateAppointment (now0 + 5) dbHostile ''tenantA'' (Some staffUser) ''a1'' statusOnly)
     = Inr (appt0\<lparr> ap_status := CONFIRMED, ap_updatedAt := now0 + 5,
                   ap_canceledAt := Some 1793664000000 \<rparr>)
   \<and> map ap_start (appointments
         (snd (updateAppointment (now0 + 5) dbHostile ''tenantA'' (Some staffUser) ''a1'' statusOnly)))
       = [1794214800000, 1794214800000]
   \<and> map ap_end (appointments
         (snd (updateAppointment (now0 + 5) dbHostile ''tenantA'' (Some staffUser) ''a1'' statusOnly)))
       = [1794216600000, 1794216600000]
   \<and> services dbHostile = []
   \<and> validateStaffAvailabilityAndTimeOff dbHostile ''tenantA'' ''S'' 1794214800000 1794216600000
       = Inl (StaffOnTimeOff ''Vacation'')
   \<and> staffConflict dbHostile ''tenantA'' ''S'' (Some ''a1'') 1794214800000 1794216600000 \<noteq> None"
proof -
  let ?row = "appt0\<lparr> ap_status := CANCELLED, ap_canceledAt := Some 1793664000000 \<rparr>"
  have h: "ub_start statusOnly = None \<and> ub_end statusOnly = None
     \<and> requireTenantRole (Some staffUser) [''OWNER'', ''ADMIN'', ''STAFF''] = Inr ()
     \<and> find (\<lambda>a. ap_id a = ''a1'' \<and> ap_tenantId a = ''tenantA'') (appointments dbHostile) = Some ?row"
    by code_simp
  have r: "find (\<lambda>a. ap_id a = ''a1'') (appointments dbHostile) = Some ?row"
    by code_simp
  have st: "ub_status statusOnly = Some CONFIRMED" "ub_notes statusOnly = None"
    by (simp_all add: statusOnly_def)
  note th = status_only_update [where ubody=statusOnly and user="Some staffUser" and apptId="''a1''"
      and t="''tenantA''" and db=dbHostile and now="now0 + 5" and appointment="?row"]
  from th h r st
  have w1: "fst (updateAppointment (now0 + 5) dbHostile ''tenantA'' (Some staffUser) ''a1'' statusOnly)
     = Inr (appt0\<lparr> ap_status := CONFIRMED, ap_updatedAt := now0 + 5,
                   ap_canceledAt := Some 1793664000000 \<rparr>)"
    by (auto simp: appt0_def)
  have m: "map ap_start (appointments dbHostile) = [1794214800000, 1794214800000]"
     "map ap_end (appointments dbHostile) = [1794216600000, 1794216600000]"
    by code_simp+
  from th h m
  have w2: "map ap_start (appointments
         (snd (updateAppointment (now0 + 5) dbHostile ''tenantA'' (Some staffUser) ''a1'' statusOnly)))
       = [1794214800000, 1794214800000]"
    and w3: "map ap_end (appointments
         (snd (updateAppointment (now0 + 5) dbHostile ''tenantA'' (Some staffUser) ''a1'' statusOnly)))
       = [1794216600000, 1794216600000]"
    by simp_all
  have w4: "services dbHostile = []
   \<and> validateStaffAvailabilityAndTimeOff dbHostile ''tenantA'' ''S'' 1794214800000 1794216600000
       = Inl (StaffOnTimeOff ''Vacation'')
   \<and> staffConflict dbHostile ''tenantA'' ''S'' (Some ''a1'') 1794214800000 1794216600000 \<noteq> None"
    by code_simp
  from w1 w2 w3 w4 show ?thesis by simp
qed

subsection \<open>The client lookup\<close>

lemma client_lookup_iff:
  "find (\<lambda>u. usr_id u = clientId \<and> usr_deletedAt u = None) (users db) \<noteq> None \<longleftrightarrow>
     (\<exists>u\<in>set (users db). usr_id u = clientId \<and> usr_deletedAt u = None)"
  by (auto simp: find_None_iff)

lemma validate_errors:
  "validateStaffAvailabilityAndTimeOff db t staffId s e = Inl err \<Longrightarrow>
     (\<exists>r. err = StaffOnTimeOff r) \<or> err = OutsideStaffAvailability"
  by (auto simp: validateStaffAvailabilityAndTimeOff_def Let_def split: list.splits if_splits)

lemma validate_not_ClientNotFound:
  "validateStaffAvailabilityAndTimeOff db t staffId s e \<noteq> Inl ClientNotFound"
  using validate_errors [of db t staffId s e ClientNotFound] by auto

lemma create_client_found:
  "cb_clientId cbody = Some clientId
   \<and> (\<exists>u\<in>set (users db). usr_id u = clientId \<and> usr_deletedAt u = None)
   \<longrightarrow> fst (createAppointment now newId db t cbody) \<noteq> Inl ClientNotFound"
proof
  assume h: "cb_clientId cbody = Some clientId
   \<and> (\<exists>u\<in>set (users db). usr_id u = clientId \<and> usr_deletedAt u = None)"
  then have "find (\<lambda>u. usr_id u = clientId \<and> usr_deletedAt u = None) (users db) \<noteq> None"
    using client_lookup_iff [of clientId db] by blast
  then obtain c where c: "find (\<lambda>u. usr_id u = clientId \<and> usr_deletedAt u = None) (users db) = Some c"
    by blast
  from h have b: "the (cb_clientId cbody) = clientId" by simp
  show "fst (createAppointment now newId db t cbody) \<noteq> Inl ClientNotFound"
    by (auto simp: createAppointment_def Let_def b c validate_not_ClientNotFound
        split: option.split jsdate.split sum.split)
qed

lemma validate_tenantUsers:
  "validateStaffAvailabilityAndTimeOff (db\<lparr> tenantUsers := tus \<rparr>) t staffId s e
     = validateStaffAvailabilityAndTimeOff db t staffId s e"
  by (simp add: validateStaffAvailabilityAndTimeOff_def)

lemma create_ignores_membership:
  "createAppointment now newId (db\<lparr> tenantUsers := tus \<rparr>) t cbody =
     (fst (createAppointment now newId db t cbody),
      (snd (createAppointment now newId db t cbody))\<lparr> tenantUsers := tus \<rparr>)"
  by (simp add: createAppointment_def Let_def validate_tenantUsers staffConflict_def
      clientConflict_def split: option.split jsdate.split sum.split)

text \<open>
  Claim C10 (client lookup). The client query of \<open>createAppointment\<close> finds a user
  exactly when some user row has the requested identifier and no deletion stamp; the
  tenant takes no part in it. Such a user never causes the client-not-found error, in
  any tenant, and the outcome of the request is the same whatever the membership table
  \<open>tenantUsers\<close> holds.
\<close>

theorem client_lookup_ignores_tenant:
  "(find (\<lambda>u. usr_id u = clientId \<and> usr_deletedAt u = None) (users db) \<noteq> None \<longleftrightarrow>
     (\<exists>u\<in>set (users db). usr_id u = clientId \<and> usr_deletedAt u = None))
 \<and> (cb_clientId cbody = Some clientId
   \<and> (\<exists>u\<in>set (users db). usr_id u = clientId \<and> usr_deletedAt u = None)
   \<longrightarrow> fst (createAppointment now newId db t cbody) \<noteq> Inl ClientNotFound)
 \<and> createAppointment now newId (db\<lparr> tenantUsers := tus \<rparr>) t cbody =
     (fst (createAppointment now newId db t cbody),
      (snd (createAppointment now newId db t cbody))\<lparr> tenantUsers := tus \<rparr>)"
  by (intro conjI client_lookup_iff create_client_found create_ignores_membership)

theorem client_lookup_ignores_tenant_witness:
  "tenantUsers dbOtherTenant = [\<lparr> tu_tenantId = ''tenantB'', tu_userId = ''C'' \<rparr>]
   \<and> fst (createAppointment now0 ''a1'' dbOtherTenant ''tenantA'' body0) = Inr appt0
   \<and> ap_clientId appt0 = ''C'' \<and> ap_tenantId appt0 = ''tenantA''
   \<and> fst (createAppointment now0 ''a1'' dbOtherTenant ''tenantA'' body0) \<noteq> Inl ClientNotFound"
proof -
  have c0: "fst (createAppointment now0 ''a1'' db0 ''tenantA'' body0) = Inr appt0"
    by code_simp
  have d: "dbOtherTenant = db0\<lparr> tenantUsers := [\<lparr> tu_tenantId = ''tenantB'', tu_userId = ''C'' \<rparr>] \<rparr>"
    by (simp add: dbOtherTenant_def)
  have u: "cb_clientId body0 = Some ''C''
     \<and> (\<exists>u\<in>set (users dbOtherTenant). usr_id u = ''C'' \<and> usr_deletedAt u = None)"
    by (simp add: body0_def dbOtherTenant_def db0_def clientC_def)
  from client_lookup_ignores_tenant [where db=db0 and now=now0 and newId="''a1''" and t="''tenantA''"
      and cbody=body0 and tus="[\<lparr> tu_tenantId = ''tenantB'', tu_userId = ''C'' \<rparr>]"] c0 d
  have w1: "fst (createAppointment now0 ''a1'' dbOtherTenant ''tenantA'' body0) = Inr appt0"
    by simp
  from client_lookup_ignores_tenant [where db=dbOtherTenant and now=now0 and newId="''a1''"
      and t="''tenantA''" and cbody=body0 and clientId="''C''"] u
  have w2: "fst (createAppointment now0 ''a1'' dbOtherTenant ''tenantA'' body0) \<noteq> Inl ClientNotFound"
    by blast
  have w3: "tenantUsers dbOtherTenant = [\<lparr> tu_tenantId = ''tenantB'', tu_userId = ''C'' \<rparr>]
     \<and> ap_clientId appt0 = ''C'' \<and> ap_tenantId appt0 = ''tenantA''"
    by (simp add: dbOtherTenant_def appt0_def)
  from w1 w2 w3 show ?thesis by simp
qed

subsection \<open>Tenant guard\<close>

lemma guard_where:
  "pm_model params = Some m \<and> m \<in> set tenantModels
   \<and> pm_action params \<in> set [''findMany'', ''findFirst'', ''findUnique'',
                               ''update'', ''delete'', ''updateMany'', ''deleteMany'']
   \<and> pm_args params = Some a
   \<longrightarrow> tenantGuard tenantId params =
         Inr (params\<lparr> pm_args :=
                Some (a\<lparr> ar_where := Some ((spread (ar_where a))(''tenantId'' \<mapsto> JStr tenantId)) \<rparr>) \<rparr>)"
  by (auto simp: tenantGuard_def injectWhere_def)

lemma guard_create:
  "pm_model params = Some m \<and> m \<in> set tenantModels \<and> pm_action params = ''create''
   \<and> pm_args params = Some a \<and> ar_data a = Some d
   \<longrightarrow> tenantGuard tenantId params =
         Inr (params\<lparr> pm_args := Some (a\<lparr> ar_data := Some (d(''tenantId'' \<mapsto> JStr tenantId)) \<rparr>) \<rparr>)"
  by (auto simp: tenantGuard_def injectData_def)

lemma guard_other_model:
  "(\<forall>m. pm_model params = Some m \<longrightarrow> m \<notin> set tenantModels)
   \<longrightarrow> tenantGuard tenantId params = Inr params"
  by (auto simp: tenantGuard_def split: option.split)

lemma guard_result_where:
  "tenantGuard tenantId params = Inr p \<and> pm_model params = Some m \<and> m \<in> set tenantModels
   \<and> pm_action params \<in> set [''findMany'', ''findFirst'', ''findUnique'',
                               ''update'', ''delete'', ''updateMany'', ''deleteMany'']
   \<longrightarrow> (\<exists>a w. pm_args p = Some a \<and> ar_where a = Some w \<and> w ''tenantId'' = Some (JStr tenantId))"
proof
  assume h: "tenantGuard tenantId params = Inr p \<and> pm_model params = Some m \<and> m \<in> set tenantModels
   \<and> pm_action params \<in> set [''findMany'', ''findFirst'', ''findUnique'',
                               ''update'', ''delete'', ''updateMany'', ''deleteMany'']"
  show "\<exists>a w. pm_args p = Some a \<and> ar_where a = Some w \<and> w ''tenantId'' = Some (JStr tenantId)"
  proof (cases "pm_args params")
    case None
    with h have "tenantGuard tenantId params = Inl TypeError"
      by (auto simp: tenantGuard_def injectWhere_def)
    with h show ?thesis by simp
  next
    case (Some a)
    with h guard_where [of params m a tenantId]
    have "p = params\<lparr> pm_args :=
                Some (a\<lparr> ar_where := Some ((spread (ar_where a))(''tenantId'' \<mapsto> JStr tenantId)) \<rparr>) \<rparr>"
      by simp
    then show ?thesis by simp
  qed
qed

lemma guard_result_create:
  "tenantGuard tenantId params = Inr p \<and> pm_model params = Some m \<and> m \<in> set tenantModels
   \<and> pm_action params = ''create''
   \<longrightarrow> (\<exists>a d. pm_args p = Some a \<and> ar_data a = Some d \<and> d ''tenantId'' = Some (JStr tenantId))"
proof
  assume h: "tenantGuard tenantId params = Inr p \<and> pm_model params = Some m \<and> m \<in> set tenantModels
   \<and> pm_action params = ''create''"
  show "\<exists>a d. pm_args p = Some a \<and> ar_data a = Some d \<and> d ''tenantId'' = Some (JStr tenantId)"
  proof (cases "pm_args params")
    case None
    with h have "tenantGuard tenantId params = Inl TypeError"
      by (auto simp: tenantGuard_def injectData_def)
    with h show ?thesis by simp
  next
    case (Some a)
    show ?thesis
    proof (cases "ar_data a")
      case None
      with Some h have "tenantGuard tenantId params = Inl TypeError"
        by (auto simp: tenantGuard_def injectData_def)
      with h show ?thesis by simp
    next
      case (Some d)
      with \<open>pm_args params = Some a\<close> h guard_create [of params m a d tenantId]
      have "p = params\<lparr> pm_args := Some (a\<lparr> ar_data := Some (d(''tenantId'' \<mapsto> JStr tenantId)) \<rparr>) \<rparr>"
        by simp
      then show ?thesis by simp
    qed
  qed
qed

text \<open>
  Claim C8 (tenant guard). For a tenant-scoped model and one of the actions
  \<open>findMany\<close>, \<open>findFirst\<close>, \<open>findUnique\<close>, \<open>update\<close>, \<open>delete\<close>, \<open>updateMany\<close>,
  \<open>deleteMany\<close>, the guard passes on the call with \<open>where.tenantId\<close> set to its own
  tenant identifier, whatever the caller had put there, and the rest of the filter and
  of the call as they were. For \<open>create\<close> it sets \<open>data.tenantId\<close> in the same way. A
  call on any other model, or with no model, is passed on unchanged. Whenever the guard
  passes a guarded call on at all (it throws when the call has no arguments object, or
  a \<open>create\<close> has no \<open>data\<close>), the tenant identifier that reaches the store is the
  guard's.
\<close>

theorem tenant_guard:
  "(pm_model params = Some m \<and> m \<in> set tenantModels
   \<and> pm_action params \<in> set [''findMany'', ''findFirst'', ''findUnique'',
                               ''update'', ''delete'', ''updateMany'', ''deleteMany'']
   \<and> pm_args params = Some a
   \<longrightarrow> tenantGuard tenantId params =
         Inr (params\<lparr> pm_args :=
                Some (a\<lparr> ar_where := Some ((spread (ar_where a))(''tenantId'' \<mapsto> JStr tenantId)) \<rparr>) \<rparr>))
 \<and> (pm_model params = Some m \<and> m \<in> set tenantModels \<and> pm_action params = ''create''
   \<and> pm_args params = Some a \<and> ar_data a = Some d
   \<longrightarrow> tenantGuard tenantId params =
         Inr (params\<lparr> pm_args := Some (a\<lparr> ar_data := Some (d(''tenantId'' \<mapsto> JStr tenantId)) \<rparr>) \<rparr>))
 \<and> ((\<forall>m. pm_model params = Some m \<longrightarrow> m \<notin> set tenantModels)
   \<longrightarrow> tenantGuard tenantId params = Inr params)
 \<and> (tenantGuard tenantId params = Inr p \<and> pm_model params = Some m \<and> m \<in> set tenantModels
   \<and> pm_action params \<in> set [''findMany'', ''findFirst'', ''findUnique'',
                               ''update'', ''delete'', ''updateMany'', ''deleteMany'']
   \<longrightarrow> (\<exists>a w. pm_args p = Some a \<and> ar_where a = Some w \<and> w ''tenantId'' = Some (JStr tenantId)))
 \<and> (tenantGuard tenantId params = Inr p \<and> pm_model params = Some m \<and> m \<in> set tenantModels
   \<and> pm_action params = ''create''
   \<longrightarrow> (\<exists>a d. pm_args p = Some a \<and> ar_data a = Some d \<and> d ''tenantId'' = Some (JStr tenantId)))"
  by (intro conjI guard_where guard_create guard_other_model guard_result_where
      guard_result_create)

theorem tenant_guard_witness:
  "tenantGuard ''tenantA'' paramsFind =
     Inr (paramsFind\<lparr> pm_args :=
            Some \<lparr> ar_where = Some [''tenantId'' \<mapsto> JStr ''tenantA'', ''staffId'' \<mapsto> JStr ''S''],
                   ar_data = None, ar_rest = () \<rparr> \<rparr>)
   \<and> tenantGuard ''tenantA'' paramsCreate =
     Inr (paramsCreate\<lparr> pm_args :=
            Some \<lparr> ar_where = None,
                   ar_data = Some [''tenantId'' \<mapsto> JStr ''tenantA'', ''title'' \<mapsto> JStr ''Haircut''],
                   ar_rest = () \<rparr> \<rparr>)
   \<and> tenantGuard ''tenantA'' paramsUser = Inr paramsUser"
proof -
  have tm: "''Appointment'' \<in> set tenantModels" "''Service'' \<in> set tenantModels"
    "''User'' \<notin> set tenantModels"
    by (simp_all add: tenantModels_def)
  have m1: "[''tenantId'' \<mapsto> JStr ''tenantB'', ''staffId'' \<mapsto> JStr ''S''](''tenantId'' \<mapsto> JStr ''tenantA'')
            = [''tenantId'' \<mapsto> JStr ''tenantA'', ''staffId'' \<mapsto> JStr ''S'']"
    by (rule ext) simp
  have m2: "[''tenantId'' \<mapsto> JStr ''tenantB'', ''title'' \<mapsto> JStr ''Haircut''](''tenantId'' \<mapsto> JStr ''tenantA'')
            = [''tenantId'' \<mapsto> JStr ''tenantA'', ''title'' \<mapsto> JStr ''Haircut'']"
    by (rule ext) simp
  let ?aF = "\<lparr> ar_where = Some [''tenantId'' \<mapsto> JStr ''tenantB'', ''staffId'' \<mapsto> JStr ''S''],
               ar_data = None, ar_rest = () \<rparr>"
  let ?aC = "\<lparr> ar_where = None,
               ar_data = Some [''tenantId'' \<mapsto> JStr ''tenantB'', ''title'' \<mapsto> JStr ''Haircut''],
               ar_rest = () \<rparr>"
  have hF: "pm_model paramsFind = Some ''Appointment'' \<and> ''Appointment'' \<in> set tenantModels
     \<and> pm_action paramsFind \<in> set [''findMany'', ''findFirst'', ''findUnique'',
                               ''update'', ''delete'', ''updateMany'', ''deleteMany'']
     \<and> pm_args paramsFind = Some ?aF"
    by (simp add: paramsFind_def tm)
  from tenant_guard [where params=paramsFind and m="''Appointment''" and a="?aF"
      and tenantId="''tenantA''"]
  have "pm_model paramsFind = Some ''Appointment'' \<and> ''Appointment'' \<in> set tenantModels
     \<and> pm_action paramsFind \<in> set [''findMany'', ''findFirst'', ''findUnique'',
                               ''update'', ''delete'', ''updateMany'', ''deleteMany'']
     \<and> pm_args paramsFind = Some ?aF
     \<longrightarrow> tenantGuard ''tenantA'' paramsFind =
         Inr (paramsFind\<lparr> pm_args :=
                Some (?aF\<lparr> ar_where := Some ((spread (ar_where ?aF))(''tenantId'' \<mapsto> JStr ''tenantA'')) \<rparr>) \<rparr>)"
    by (rule conjunct1)
  from this hF have "tenantGuard ''tenantA'' paramsFind =
         Inr (paramsFind\<lparr> pm_args :=
                Some (?aF\<lparr> ar_where := Some ((spread (ar_where ?aF))(''tenantId'' \<mapsto> JStr ''tenantA'')) \<rparr>) \<rparr>)"
    by (rule mp)
  then have w1: "tenantGuard ''tenantA'' paramsFind =
     Inr (paramsFind\<lparr> pm_args :=
            Some \<lparr> ar_where = Some [''tenantId'' \<mapsto> JStr ''tenantA'', ''staffId'' \<mapsto> JStr ''S''],
                   ar_data = None, ar_rest = () \<rparr> \<rparr>)"
    by (simp add: spread_def m1)
  have hC: "pm_model paramsCreate = Some ''Service'' \<and> ''Service'' \<in> set tenantModels
     \<and> pm_action paramsCreate = ''create''
     \<and> pm_args paramsCreate = Some ?aC
     \<and> ar_data ?aC = Some [''tenantId'' \<mapsto> JStr ''tenantB'', ''title'' \<mapsto> JStr ''Haircut'']"
    by (simp add: paramsCreate_def tm)
  from tenant_guard [where params=paramsCreate and m="''Service''" and a="?aC"
      and d="[''tenantId'' \<mapsto> JStr ''tenantB'', ''title'' \<mapsto> JStr ''Haircut'']"
      and tenantId="''tenantA''"]
  have "pm_model paramsCreate = Some ''Service'' \<and> ''Service'' \<in> set tenantModels
     \<and> pm_action paramsCreate = ''create''
     \<and> pm_args paramsCreate = Some ?aC
     \<and> ar_data ?aC = Some [''tenantId'' \<mapsto> JStr ''tenantB'', ''title'' \<mapsto> JStr ''Haircut'']
     \<longrightarrow> tenantGuard ''tenantA'' paramsCreate =
         Inr (paramsCreate\<lparr> pm_args :=
                Some (?aC\<lparr> ar_data := Some ([''tenantId'' \<mapsto> JStr ''tenantB'',
                                                ''title'' \<mapsto> JStr ''Haircut'']
                                               (''tenantId'' \<mapsto> JStr ''tenantA'')) \<rparr>) \<rparr>)"
    by (rule conjunct2 [THEN conjunct1])
  from this hC have "tenantGuard ''tenantA'' paramsCreate =
         Inr (paramsCreate\<lparr> pm_args :=
                Some (?aC\<lparr> ar_data := Some ([''tenantId'' \<mapsto> JStr ''tenantB'',
                                                ''title'' \<mapsto> JStr ''Haircut'']
                                               (''tenantId'' \<mapsto> JStr ''tenantA'')) \<rparr>) \<rparr>)"
    by (rule mp)
  then have w2: "tenantGuard ''tenantA'' paramsCreate =
     Inr (paramsCreate\<lparr> pm_args :=
            Some \<lparr> ar_where = None,
                   ar_data = Some [''tenantId'' \<mapsto> JStr ''tenantA'', ''title'' \<mapsto> JStr ''Haircut''],
                   ar_rest = () \<rparr> \<rparr>)"
    by (simp add: m2)
  have hU: "\<forall>m. pm_model paramsUser = Some m \<longrightarrow> m \<notin> set tenantModels"
    by (simp add: paramsUser_def tm)
  from tenant_guard [where params=paramsUser and tenantId="''tenantA''"]
  have "(\<forall>m. pm_model paramsUser = Some m \<longrightarrow> m \<notin> set tenantModels)
          \<longrightarrow> tenantGuard ''tenantA'' paramsUser = Inr paramsUser"
    by (rule conjunct2 [THEN conjunct2, THEN conjunct1])
  from this hU have w3: "tenantGuard ''tenantA'' paramsUser = Inr paramsUser"
    by (rule mp)
  from w1 w2 w3 show ?thesis by simp
qed

end
